theory Spec2Isabelle
  imports Main "HOL-Library.Word" "HOL-Library.Sublist"
begin

unbundle bit_operations_syntax

section \<open>The MT7621 I2C master driver (drivers/i2c/busses/i2c-mt7621.c)\<close>

text \<open>
  The driver talks to the controller through 32-bit memory-mapped registers and
  polls them with a timeout. The model keeps the C functions' names. What the
  hardware answers is not part of the driver: it is an environment \<open>env\<close>, a
  parameter of every function that touches a register. All register traffic is
  recorded in a trace, newest event first, so that the theorems can speak about
  which registers were written, in which order and with which values.

  Integers: \<open>u8\<close>, \<open>u16\<close>, \<open>u32\<close>, \<open>u64\<close> are the C types of the same width. The
  target is a 32-bit MIPS (MT7688), so \<open>int\<close> and \<open>unsigned long\<close> have 32 bits.
  Loop counters and lengths that the code keeps in a C \<open>int\<close> and that stay
  between 0 and 65535 are natural numbers. Return values are HOL integers.
\<close>

type_synonym u8 = "8 word"
type_synonym u16 = "16 word"
type_synonym u32 = "32 word"
type_synonym u64 = "64 word"

subsection \<open>Registers and bit fields\<close>

text \<open>The \<open>REG_*\<close> macros. \<open>reg_offset\<close> is the byte offset the macro expands to.\<close>

datatype reg =
    REG_SM0CFG0 | REG_SM0DOUT | REG_SM0DIN | REG_SM0ST | REG_SM0AUTO
  | REG_SM0CFG1 | REG_SM0CFG2 | REG_SM0CTL0 | REG_SM0CTL1
  | REG_SM0D0 | REG_SM0D1 | REG_PINTEN | REG_PINTST | REG_PINTCL

fun reg_offset :: "reg \<Rightarrow> nat" where
  "reg_offset REG_SM0CFG0 = 0x08"
| "reg_offset REG_SM0DOUT = 0x10"
| "reg_offset REG_SM0DIN = 0x14"
| "reg_offset REG_SM0ST = 0x18"
| "reg_offset REG_SM0AUTO = 0x1C"
| "reg_offset REG_SM0CFG1 = 0x20"
| "reg_offset REG_SM0CFG2 = 0x28"
| "reg_offset REG_SM0CTL0 = 0x40"
| "reg_offset REG_SM0CTL1 = 0x44"
| "reg_offset REG_SM0D0 = 0x50"
| "reg_offset REG_SM0D1 = 0x54"
| "reg_offset REG_PINTEN = 0x5C"
| "reg_offset REG_PINTST = 0x60"
| "reg_offset REG_PINTCL = 0x64"

definition I2C_DEVADDR_MASK :: u32 where "I2C_DEVADDR_MASK = 0x7f"
definition I2C_BUSY :: u32 where "I2C_BUSY = push_bit 0 1"
definition ODRAIN_HIGH_SM0 :: u32 where "ODRAIN_HIGH_SM0 = push_bit 31 1"
definition VSYNC_SHIFT :: nat where "VSYNC_SHIFT = 28"
definition VSYNC_PULSE :: u32 where "VSYNC_PULSE = push_bit VSYNC_SHIFT 0x1"
definition CLK_DIV_SHIFT :: nat where "CLK_DIV_SHIFT = 16"
definition CLK_DIV_MASK :: u32 where "CLK_DIV_MASK = 0xfff"
definition WAIT_HIGH :: u32 where "WAIT_HIGH = push_bit 6 1"
definition SM0_EN :: u32 where "SM0_EN = push_bit 1 1"
definition SM0_MODE_START :: u32 where "SM0_MODE_START = 0x1"
definition SM0_MODE_WRITE :: u32 where "SM0_MODE_WRITE = 0x2"
definition SM0_MODE_STOP :: u32 where "SM0_MODE_STOP = 0x3"
definition SM0_MODE_READ_NACK :: u32 where "SM0_MODE_READ_NACK = 0x4"
definition SM0_MODE_READ_ACK :: u32 where "SM0_MODE_READ_ACK = 0x5"
definition SM0_TRI_BUSY :: u32 where "SM0_TRI_BUSY = push_bit 0 1"
definition TIMEOUT_MS :: nat where "TIMEOUT_MS = 1000"
definition DELAY_INTERVAL_US :: nat where "DELAY_INTERVAL_US = 100"

text \<open>
  Modelled from the spec: the headers \<open>linux/i2c.h\<close> and \<open>linux/errno.h\<close> are
  not among the source files. The spec names the 10-bit-address flag, the
  direction, the block-read flag and a block-size maximum of 32. The numbers
  below are the ones of the kernel's headers; the theorems use the names only.
\<close>

definition I2C_M_RD :: u16 where "I2C_M_RD = 0x0001"
definition I2C_M_TEN :: u16 where "I2C_M_TEN = 0x0010"
definition I2C_M_RECV_LEN :: u16 where "I2C_M_RECV_LEN = 0x0400"
definition I2C_SMBUS_BLOCK_MAX :: u8 where "I2C_SMBUS_BLOCK_MAX = 32"
definition EINVAL :: int where "EINVAL = 22"
definition EAGAIN :: int where "EAGAIN = 11"
definition ETIMEDOUT :: int where "ETIMEDOUT = 145"

subsection \<open>Hardware state and environment\<close>

text \<open>
  An event is one access of the driver to the outside: a register read with the
  value obtained, a register write, a sleep with its duration in microseconds,
  and \<open>device_reset\<close>. Writes and resets are the mutations of the hardware.
\<close>

datatype event =
    Read reg u32
  | Write reg u32
  | Usleep nat
  | DeviceReset

record hw =
  trace :: "event list"
  now :: nat

text \<open>
  The environment fixes everything the source leaves to the machine:
  \<^item> \<open>rd tr r\<close>: the value a read of register \<open>r\<close> returns after the history \<open>tr\<close>;
  \<^item> \<open>oversleep tr\<close>: by how many microseconds a sleep overshoots its minimum;
  \<^item> \<open>shl_wide x n\<close>: the \<open>int\<close> that \<open>x << n\<close> yields on this machine for
    \<open>n \<ge> 32\<close>, where C leaves the result of the shift undefined.
\<close>

record env =
  rd :: "event list \<Rightarrow> reg \<Rightarrow> u32"
  oversleep :: "event list \<Rightarrow> nat"
  shl_wide :: "u32 \<Rightarrow> nat \<Rightarrow> u32"

definition hw0 :: hw where
  "hw0 = \<lparr>trace = [], now = 0\<rparr>"

fun is_mutation :: "event \<Rightarrow> bool" where
  "is_mutation (Write r v) = True"
| "is_mutation DeviceReset = True"
| "is_mutation (Read r v) = False"
| "is_mutation (Usleep d) = False"

text \<open>The mutations of a state, oldest first.\<close>

definition writes_log :: "hw \<Rightarrow> event list" where
  "writes_log s = rev (filter is_mutation (trace s))"

definition mtk_i2c_w32 :: "u32 \<Rightarrow> reg \<Rightarrow> hw \<Rightarrow> hw" where
  "mtk_i2c_w32 val r s = s\<lparr>trace := Write r val # trace s\<rparr>"

definition mtk_i2c_r32 :: "env \<Rightarrow> reg \<Rightarrow> hw \<Rightarrow> u32 \<times> hw" where
  "mtk_i2c_r32 e r s =
     (let v = rd e (trace s) r in (v, s\<lparr>trace := Read r v # trace s\<rparr>))"

text \<open>\<open>readl_relaxed\<close> on \<open>base + reg\<close>: the same access as \<open>mtk_i2c_r32\<close>.\<close>

definition readl_relaxed :: "env \<Rightarrow> reg \<Rightarrow> hw \<Rightarrow> u32 \<times> hw" where
  "readl_relaxed e r s = mtk_i2c_r32 e r s"

text \<open>
  \<open>usleep_range(min, max)\<close> sleeps at least \<open>min\<close> microseconds; the scheduler
  may add to it, so \<open>max\<close> is no guarantee and does not bound the model.
\<close>

definition usleep_range :: "env \<Rightarrow> nat \<Rightarrow> nat \<Rightarrow> hw \<Rightarrow> hw" where
  "usleep_range e lo hi s =
     (let d = lo + oversleep e (trace s)
      in s\<lparr>trace := Usleep d # trace s, now := now s + d\<rparr>)"

definition device_reset :: "hw \<Rightarrow> hw" where
  "device_reset s = s\<lparr>trace := DeviceReset # trace s\<rparr>"

text \<open>
  The clock \<open>now\<close> counts microseconds and stands for \<open>jiffies\<close>;
  \<open>msecs_to_jiffies\<close> converts to the same unit.
\<close>

definition msecs_to_jiffies :: "nat \<Rightarrow> nat" where
  "msecs_to_jiffies ms = ms * 1000"

subsection \<open>Timeout pollers\<close>

text \<open>
  The \<open>do ... while (time_before(jiffies, timeout))\<close> loop of
  \<open>poll_down_timeout\<close>. The result is \<open>True\<close> when the loop left through
  \<open>return 0\<close>, \<open>False\<close> when the loop condition failed.
\<close>

function poll_down_loop :: "env \<Rightarrow> reg \<Rightarrow> u32 \<Rightarrow> nat \<Rightarrow> hw \<Rightarrow> bool \<times> hw" where
  "poll_down_loop e r msk timeout s =
     (if fst (readl_relaxed e r s) AND msk = 0 then (True, snd (readl_relaxed e r s))
      else if now (usleep_range e DELAY_INTERVAL_US (DELAY_INTERVAL_US + 50)
                     (snd (readl_relaxed e r s))) < timeout
      then poll_down_loop e r msk timeout
             (usleep_range e DELAY_INTERVAL_US (DELAY_INTERVAL_US + 50)
                (snd (readl_relaxed e r s)))
      else (False, usleep_range e DELAY_INTERVAL_US (DELAY_INTERVAL_US + 50)
                     (snd (readl_relaxed e r s))))"
  by pat_completeness auto
termination
  by (relation "measure (\<lambda>(e, r, msk, timeout, s). timeout - now s)")
     (auto simp: usleep_range_def readl_relaxed_def mtk_i2c_r32_def Let_def
                 DELAY_INTERVAL_US_def)

declare poll_down_loop.simps [simp del]

definition poll_down_timeout :: "env \<Rightarrow> reg \<Rightarrow> u32 \<Rightarrow> hw \<Rightarrow> int \<times> hw" where
  "poll_down_timeout e r msk s =
     (let timeout = now s + msecs_to_jiffies TIMEOUT_MS
      in case poll_down_loop e r msk timeout s of
           (True, s1) \<Rightarrow> (0, s1)
         | (False, s1) \<Rightarrow>
             (let (v, s2) = readl_relaxed e r s1
              in (if v AND msk \<noteq> 0 then - EAGAIN else 0, s2)))"

text \<open>
  \<open>poll_up_timeout\<close> waits for a bit to be set. No function of the driver
  calls it. When its loop ends by the deadline it fails at once, without a
  further sample.
\<close>

function poll_up_loop :: "env \<Rightarrow> reg \<Rightarrow> u32 \<Rightarrow> nat \<Rightarrow> hw \<Rightarrow> bool \<times> hw" where
  "poll_up_loop e r msk timeout s =
     (if fst (readl_relaxed e r s) AND msk \<noteq> 0 then (True, snd (readl_relaxed e r s))
      else if now (usleep_range e DELAY_INTERVAL_US (DELAY_INTERVAL_US + 50)
                     (snd (readl_relaxed e r s))) < timeout
      then poll_up_loop e r msk timeout
             (usleep_range e DELAY_INTERVAL_US (DELAY_INTERVAL_US + 50)
                (snd (readl_relaxed e r s)))
      else (False, usleep_range e DELAY_INTERVAL_US (DELAY_INTERVAL_US + 50)
                     (snd (readl_relaxed e r s))))"
  by pat_completeness auto
termination
  by (relation "measure (\<lambda>(e, r, msk, timeout, s). timeout - now s)")
     (auto simp: usleep_range_def readl_relaxed_def mtk_i2c_r32_def Let_def
                 DELAY_INTERVAL_US_def)

declare poll_up_loop.simps [simp del]

definition poll_up_timeout :: "env \<Rightarrow> reg \<Rightarrow> u32 \<Rightarrow> hw \<Rightarrow> int \<times> hw" where
  "poll_up_timeout e r msk s =
     (let timeout = now s + msecs_to_jiffies TIMEOUT_MS
      in case poll_up_loop e r msk timeout s of
           (True, s1) \<Rightarrow> (0, s1)
         | (False, s1) \<Rightarrow> (- ETIMEDOUT, s1))"

definition mtk_i2c_wait_idle :: "env \<Rightarrow> hw \<Rightarrow> int \<times> hw" where
  "mtk_i2c_wait_idle e s = poll_down_timeout e REG_SM0ST I2C_BUSY s"

definition mtk_i2c_wait_done :: "env \<Rightarrow> hw \<Rightarrow> int \<times> hw" where
  "mtk_i2c_wait_done e s = poll_down_timeout e REG_SM0CTL1 SM0_TRI_BUSY s"

subsection \<open>Reset, register dump, clock divisor\<close>

record mtk_i2c =
  clk :: u32
  cur_clk :: u32
  clk_div :: u32

text \<open>\<open>clk\<close> stands for the clock handle: it holds the rate \<open>clk_get_rate\<close> reads.\<close>

definition clk_get_rate :: "u32 \<Rightarrow> u32" where
  "clk_get_rate c = c"

definition mtk_i2c_reset :: "mtk_i2c \<Rightarrow> hw \<Rightarrow> hw" where
  "mtk_i2c_reset i2c s =
     (let s1 = device_reset s;
          r = ODRAIN_HIGH_SM0 OR VSYNC_PULSE OR push_bit CLK_DIV_SHIFT (clk_div i2c)
                OR WAIT_HIGH OR SM0_EN;
          s2 = mtk_i2c_w32 r REG_SM0CTL0 s1
      in mtk_i2c_w32 0 REG_SM0CFG2 s2)"

text \<open>The nine reads of \<open>mtk_i2c_dump_reg\<close>, in the order of the argument list.\<close>

definition mtk_i2c_dump_reg :: "env \<Rightarrow> hw \<Rightarrow> hw" where
  "mtk_i2c_dump_reg e s =
     fold (\<lambda>r s'. snd (mtk_i2c_r32 e r s'))
       [REG_SM0CFG0, REG_SM0DOUT, REG_SM0DIN, REG_SM0ST, REG_SM0AUTO,
        REG_SM0CFG1, REG_SM0CFG2, REG_SM0CTL0, REG_SM0CTL1] s"

text \<open>
  \<open>mtk_i2c_init\<close>. The unsigned division traps on a zero divisor: the model
  returns \<open>None\<close> there.
\<close>

definition mtk_i2c_init :: "mtk_i2c \<Rightarrow> hw \<Rightarrow> (mtk_i2c \<times> hw) option" where
  "mtk_i2c_init i2c s =
     (if cur_clk i2c = 0 then None
      else
        let d = clk_get_rate (clk i2c) div cur_clk i2c;
            i2c1 = i2c\<lparr>clk_div := d\<rparr>;
            i2c2 = (if clk_div i2c1 > CLK_DIV_MASK then i2c1\<lparr>clk_div := CLK_DIV_MASK\<rparr>
                    else i2c1)
        in Some (i2c2, mtk_i2c_reset i2c2 s))"

subsection \<open>Messages\<close>

text \<open>
  \<open>struct i2c_msg\<close>. \<open>buf\<close> is a pointer: the model holds the memory behind it,
  one byte per index, so that a store at any index is defined.
\<close>

record i2c_msg =
  addr :: u16
  flags :: u16
  len :: u16
  buf :: "nat \<Rightarrow> u8"

subsection \<open>The read path: \<open>mtk_i2c_read\<close>\<close>

text \<open>
  The \<open>while (len > 0)\<close> loop of \<open>mtk_i2c_read\<close>; \<open>n\<close> is the C variable \<open>len\<close>.
  The pointer argument is the memory \<open>b\<close> with an index \<open>off\<close> into it
  (\<open>pmsg->buf\<close> is \<open>off = 0\<close>, \<open>&pmsg->buf[1]\<close> is \<open>off = 1\<close>). The result
  of \<open>mtk_i2c_wait_done\<close> is dropped, as in the source. The two data registers
  are read \<open>REG_SM0D0\<close> first.
\<close>

function mtk_i2c_read_loop ::
  "env \<Rightarrow> nat \<Rightarrow> nat \<Rightarrow> (nat \<Rightarrow> u8) \<Rightarrow> nat \<Rightarrow> hw \<Rightarrow> (nat \<Rightarrow> u8) \<times> hw" where
  "mtk_i2c_read_loop e n pkt_num b off s =
     (if n > 0 then
        let plen = (if n > 8 then 8 else n);
            s1 = mtk_i2c_w32 (push_bit 16 0xFF OR push_bit 8 (of_nat plen - 1)
                              OR push_bit 4 SM0_MODE_READ_ACK OR 1) REG_SM0CTL1 s;
            s2 = snd (mtk_i2c_wait_done e s1);
            d0 = fst (mtk_i2c_r32 e REG_SM0D0 s2);
            s3 = snd (mtk_i2c_r32 e REG_SM0D0 s2);
            d1 = fst (mtk_i2c_r32 e REG_SM0D1 s3);
            s4 = snd (mtk_i2c_r32 e REG_SM0D1 s3);
            d = (ucast d0 OR push_bit 32 (ucast d1) :: u64);
            b1 = fold (\<lambda>i m. m(off + (i + pkt_num * 8) := ucast (drop_bit (8 * i) d)))
                   [0..<plen] b
        in mtk_i2c_read_loop e (n - plen) (pkt_num + 1) b1 off s4
      else (b, s))"
  by pat_completeness auto
termination
  by (relation "measure (\<lambda>(e, n, pkt_num, b, off, s). n)") auto

declare mtk_i2c_read_loop.simps [simp del]

definition mtk_i2c_read :: "env \<Rightarrow> nat \<Rightarrow> (nat \<Rightarrow> u8) \<Rightarrow> nat \<Rightarrow> hw \<Rightarrow> (nat \<Rightarrow> u8) \<times> hw" where
  "mtk_i2c_read e n b off s = mtk_i2c_read_loop e n 0 b off s"

subsection \<open>The write path: the \<open>while (plen > 0)\<close> loop of \<open>mtk_i2c_master_xfer\<close>\<close>

text \<open>
  \<open>x << n\<close> on a C \<open>int\<close>. For \<open>n < 32\<close> the bits are shifted as GNU C defines
  it (bits leaving the word are lost, the sign bit may be set). For \<open>n \<ge> 32\<close>
  the result is whatever the machine yields: \<open>shl_wide\<close> of the environment.
\<close>

definition c_shl :: "env \<Rightarrow> u32 \<Rightarrow> nat \<Rightarrow> u32" where
  "c_shl e x n = (if n < 32 then push_bit n x else shl_wide e x n)"

text \<open>
  The \<open>for (j = 0; j < len; j++) verb |= pmsg->buf[j+pkt_num*8] << (j*8)\<close> loop.
  The byte is promoted to \<open>int\<close> (\<open>ucast\<close> to 32 bits), shifted as an \<open>int\<close>, and
  the \<open>int\<close> is converted to the \<open>uint64_t\<close> of \<open>verb\<close> with its sign (\<open>scast\<close>).
\<close>

definition pack_verb :: "env \<Rightarrow> (nat \<Rightarrow> u8) \<Rightarrow> nat \<Rightarrow> nat \<Rightarrow> u64" where
  "pack_verb e b pkt_num l =
     fold (\<lambda>j verb. verb OR scast (c_shl e (ucast (b (j + pkt_num * 8))) (j * 8)))
       [0..<l] 0"

function xfer_write_loop :: "env \<Rightarrow> i2c_msg \<Rightarrow> nat \<Rightarrow> nat \<Rightarrow> hw \<Rightarrow> hw" where
  "xfer_write_loop e pmsg plen pkt_num s =
     (if plen > 0 then
        let l = (if plen > 8 then 8 else plen);
            verb = pack_verb e (buf pmsg) pkt_num l;
            s1 = mtk_i2c_w32 (ucast verb) REG_SM0D0 s;
            s2 = mtk_i2c_w32 (ucast (drop_bit 32 verb)) REG_SM0D1 s1;
            s3 = mtk_i2c_w32 (push_bit 16 0xFF
                              OR push_bit 8 ((ucast (len pmsg) - 1) AND 0x7)
                              OR push_bit 4 SM0_MODE_WRITE OR 1) REG_SM0CTL1 s2;
            s4 = snd (mtk_i2c_wait_done e s3)
        in xfer_write_loop e pmsg (plen - l) (pkt_num + 1) s4
      else s)"
  by pat_completeness auto
termination
  by (relation "measure (\<lambda>(e, pmsg, plen, pkt_num, s). plen)") auto

declare xfer_write_loop.simps [simp del]

subsection \<open>The transfer entry point: \<open>mtk_i2c_master_xfer\<close>\<close>

text \<open>
  How one pass through the body of the \<open>for\<close> loop ends: \<open>None\<close> is the end of
  the body (the loop goes on with the next message), \<open>Ret r\<close> is \<open>return r\<close>,
  \<open>Err_timeout r\<close> is \<open>goto err_timeout\<close> with \<open>ret = r\<close>.
\<close>

datatype exit = Ret int | Err_timeout int

text \<open>Lines 263 to 270: the start operation and the address byte.\<close>

definition xfer_start :: "env \<Rightarrow> i2c_msg \<Rightarrow> hw \<Rightarrow> hw" where
  "xfer_start e pmsg s =
     (let s1 = mtk_i2c_w32 (push_bit 16 0xFF OR push_bit 8 0
                            OR push_bit 4 SM0_MODE_START OR 1) REG_SM0CTL1 s;
          s2 = snd (mtk_i2c_wait_done e s1);
          s3 = mtk_i2c_w32 ((push_bit 1 (ucast (addr pmsg))
                             OR (if flags pmsg AND I2C_M_RD \<noteq> 0 then 1 else 0)) AND 0xFF)
                 REG_SM0D0 s2;
          s4 = mtk_i2c_w32 (push_bit 16 0xFF OR push_bit 8 0
                            OR push_bit 4 SM0_MODE_WRITE OR 1) REG_SM0CTL1 s3
      in snd (mtk_i2c_wait_done e s4))"

text \<open>Lines 306 and 307, and 279 and 280: the stop operation.\<close>

definition xfer_stop :: "env \<Rightarrow> hw \<Rightarrow> hw" where
  "xfer_stop e s =
     snd (mtk_i2c_wait_done e
            (mtk_i2c_w32 (push_bit 16 0xFF OR push_bit 8 0
                          OR push_bit 4 SM0_MODE_STOP OR 1) REG_SM0CTL1 s))"

text \<open>Lines 272 to 307: the data phase of one message and its stop.\<close>

definition xfer_data :: "env \<Rightarrow> i2c_msg \<Rightarrow> hw \<Rightarrow> exit option \<times> i2c_msg \<times> hw" where
  "xfer_data e pmsg s =
     (if flags pmsg AND I2C_M_RECV_LEN \<noteq> 0 then
        let b1 = fst (mtk_i2c_read e 1 (buf pmsg) 0 s);
            s1 = snd (mtk_i2c_read e 1 (buf pmsg) 0 s)
        in if b1 0 < I2C_SMBUS_BLOCK_MAX \<and> b1 0 > 0 then
             let b2 = fst (mtk_i2c_read e (unat (b1 0)) b1 1 s1);
                 s2 = snd (mtk_i2c_read e (unat (b1 0)) b1 1 s1)
             in (None, pmsg\<lparr>buf := b2\<rparr>, xfer_stop e s2)
           else (Some (Ret (- EINVAL)), pmsg\<lparr>buf := b1\<rparr>, xfer_stop e s1)
      else if flags pmsg AND I2C_M_RD \<noteq> 0 then
        let b1 = fst (mtk_i2c_read e (unat (len pmsg)) (buf pmsg) 0 s);
            s1 = snd (mtk_i2c_read e (unat (len pmsg)) (buf pmsg) 0 s)
        in (None, pmsg\<lparr>buf := b1\<rparr>, xfer_stop e s1)
      else
        (None, pmsg, xfer_stop e (xfer_write_loop e pmsg (unat (len pmsg)) 0 s)))"

text \<open>Lines 237 to 307: the body of the \<open>for\<close> loop for the message \<open>pmsg\<close>.\<close>

definition xfer_msg :: "env \<Rightarrow> i2c_msg \<Rightarrow> hw \<Rightarrow> exit option \<times> i2c_msg \<times> hw" where
  "xfer_msg e pmsg s =
     (let ret = fst (mtk_i2c_wait_idle e s);
          s1 = snd (mtk_i2c_wait_idle e s)
      in if ret \<noteq> 0 then (Some (Err_timeout ret), pmsg, s1)
         else if flags pmsg AND I2C_M_TEN \<noteq> 0 then (Some (Ret (- EINVAL)), pmsg, s1)
         else
           let s2 = mtk_i2c_w32 (ucast (addr pmsg) AND I2C_DEVADDR_MASK) REG_SM0CFG0 s1
           in if len pmsg = 0 then (Some (Ret (- EINVAL)), pmsg, s2)
              else xfer_data e pmsg (xfer_start e pmsg s2))"

text \<open>
  The \<open>for (i = 0; i < num; i++)\<close> loop over the messages, \<open>num\<close> being the
  length of the list. \<open>None\<close>: the loop ran to its end, with \<open>i = num\<close>.
\<close>

fun xfer_loop :: "env \<Rightarrow> i2c_msg list \<Rightarrow> hw \<Rightarrow> exit option \<times> i2c_msg list \<times> hw" where
  "xfer_loop e [] s = (None, [], s)"
| "xfer_loop e (pmsg # msgs) s =
     (case xfer_msg e pmsg s of
        (Some x, pmsg1, s1) \<Rightarrow> (Some x, pmsg1 # msgs, s1)
      | (None, pmsg1, s1) \<Rightarrow>
          (case xfer_loop e msgs s1 of (x, msgs1, s2) \<Rightarrow> (x, pmsg1 # msgs1, s2)))"

text \<open>
  \<open>mtk_i2c_master_xfer\<close>: the return value, the messages with their buffers as
  the transfer left them, and the hardware state. After the loop \<open>ret = i\<close> is
  the number of messages. The \<open>printk\<close> calls are not modelled.
\<close>

definition mtk_i2c_master_xfer ::
  "env \<Rightarrow> mtk_i2c \<Rightarrow> i2c_msg list \<Rightarrow> hw \<Rightarrow> int \<times> i2c_msg list \<times> hw" where
  "mtk_i2c_master_xfer e i2c msgs s =
     (case xfer_loop e msgs s of
        (None, msgs1, s1) \<Rightarrow> (int (length msgs), msgs1, s1)
      | (Some (Ret r), msgs1, s1) \<Rightarrow> (r, msgs1, s1)
      | (Some (Err_timeout r), msgs1, s1) \<Rightarrow>
          (r, msgs1, mtk_i2c_reset i2c (mtk_i2c_dump_reg e s1)))"

subsection \<open>Environments used as concrete inputs\<close>

text \<open>
  A controller whose busy bits are set during the first sample only, on a
  machine where a sleep lasts a second longer than asked.
\<close>

definition late_env :: env where
  "late_env = \<lparr>rd = (\<lambda>tr r. if length tr < 2 then 1 else 0),
               oversleep = (\<lambda>tr. 1000000), shl_wide = (\<lambda>x n. 0)\<rparr>"

text \<open>A controller that is idle and completes every operation at once.\<close>

definition idle_env :: env where
  "idle_env = \<lparr>rd = (\<lambda>tr r. 0), oversleep = (\<lambda>tr. 0), shl_wide = (\<lambda>x n. 0)\<rparr>"

text \<open>A controller whose status register never leaves busy.\<close>

definition busy_env :: env where
  "busy_env = \<lparr>rd = (\<lambda>tr r. if r = REG_SM0ST then 1 else 0), oversleep = (\<lambda>tr. 0),
               shl_wide = (\<lambda>x n. 0)\<rparr>"

definition i2c0 :: mtk_i2c where
  "i2c0 = \<lparr>clk = 40000000, cur_clk = 100000, clk_div = 400\<rparr>"

text \<open>The memory behind a buffer pointer that holds the bytes \<open>xs\<close>.\<close>

definition buf_of :: "u8 list \<Rightarrow> nat \<Rightarrow> u8" where
  "buf_of xs i = (if i < length xs then xs ! i else 0)"

definition ten_msg :: i2c_msg where
  "ten_msg = \<lparr>addr = 0x50, flags = I2C_M_TEN, len = 1, buf = buf_of [0xAB]\<rparr>"

definition empty_msg :: i2c_msg where
  "empty_msg = \<lparr>addr = 0x50, flags = 0, len = 0, buf = buf_of []\<rparr>"

text \<open>
  The first byte a block read receives for the message \<open>pmsg\<close> whose loop body
  starts in state \<open>s\<close>: \<open>pmsg->buf[0]\<close> after \<open>mtk_i2c_read(i2c, 1, pmsg->buf)\<close>
  on line 274.
\<close>

definition recv_len_byte :: "env \<Rightarrow> i2c_msg \<Rightarrow> hw \<Rightarrow> u8" where
  "recv_len_byte e pmsg s =
     fst (mtk_i2c_read e 1 (buf pmsg) 0
            (xfer_start e pmsg
               (mtk_i2c_w32 (ucast (addr pmsg) AND I2C_DEVADDR_MASK) REG_SM0CFG0
                  (snd (mtk_i2c_wait_idle e s))))) 0"

text \<open>A device that answers every data read with the byte 200.\<close>

definition bogus_env :: env where
  "bogus_env = \<lparr>rd = (\<lambda>tr r. if r = REG_SM0D0 then 200 else 0), oversleep = (\<lambda>tr. 0),
                shl_wide = (\<lambda>x n. 0)\<rparr>"

definition block_msg :: i2c_msg where
  "block_msg = \<lparr>addr = 0x44, flags = I2C_M_RD OR I2C_M_RECV_LEN, len = 1, buf = buf_of []\<rparr>"

definition wide_empty_msg :: i2c_msg where
  "wide_empty_msg = \<lparr>addr = 0x150, flags = 0, len = 0, buf = buf_of []\<rparr>"

definition wide_msg :: i2c_msg where
  "wide_msg = \<lparr>addr = 0x150, flags = I2C_M_RD, len = 1, buf = buf_of []\<rparr>"

text \<open>Write messages of 8, 12 and 1 bytes to the address 0x50.\<close>

definition write8_msg :: i2c_msg where
  "write8_msg = \<lparr>addr = 0x50, flags = 0, len = 8,
                  buf = buf_of [0x11, 0x22, 0x33, 0x44, 0x55, 0x66, 0x77, 0x88]\<rparr>"

definition write12_msg :: i2c_msg where
  "write12_msg = \<lparr>addr = 0x50, flags = 0, len = 12,
                   buf = buf_of [0x01, 0x02, 0x03, 0x04, 0x05, 0x06, 0x07, 0x08,
                                 0x09, 0x0A, 0x0B, 0x0C]\<rparr>"

definition write1_msg :: i2c_msg where
  "write1_msg = \<lparr>addr = 0x50, flags = 0, len = 1, buf = buf_of [0xAB]\<rparr>"

text \<open>
  A controller whose status register reads idle while the trigger bit of the
  command register never clears: no operation is ever reported done.
\<close>

definition hung_env :: env where
  "hung_env = \<lparr>rd = (\<lambda>tr r. if r = REG_SM0CTL1 then 1 else 0), oversleep = (\<lambda>tr. 0),
               shl_wide = (\<lambda>x n. 0)\<rparr>"

text \<open>
  What a write operation transmits: the contents of the two data registers at
  the moment a command with mode \<open>SM0_MODE_WRITE\<close> is written. \<open>sent_windows\<close>
  collects these pairs from a log of register writes, oldest first.
\<close>

fun latch :: "event \<Rightarrow> u32 \<times> u32 \<times> (u32 \<times> u32) list \<Rightarrow> u32 \<times> u32 \<times> (u32 \<times> u32) list" where
  "latch (Write r v) (d0, d1, ws) =
     (if r = REG_SM0D0 then (v, d1, ws)
      else if r = REG_SM0D1 then (d0, v, ws)
      else if r = REG_SM0CTL1 \<and> drop_bit 4 v AND 0x7 = SM0_MODE_WRITE then (d0, d1, ws @ [(d0, d1)])
      else (d0, d1, ws))"
| "latch ev st = st"

definition sent_windows :: "event list \<Rightarrow> (u32 \<times> u32) list" where
  "sent_windows evs = snd (snd (fold latch evs (0, 0, [])))"

text \<open>
  A device that echoes: the k-th read operation finds in the data registers the
  k-th pair of \<open>ws\<close>. Every operation is done at once.
\<close>

fun is_read_op :: "event \<Rightarrow> bool" where
  "is_read_op (Write r v) = (r = REG_SM0CTL1 \<and> drop_bit 4 v AND 0x7 = SM0_MODE_READ_ACK)"
| "is_read_op ev = False"

definition echo_env :: "(u32 \<times> u32) list \<Rightarrow> env" where
  "echo_env ws =
     \<lparr>rd = (\<lambda>tr r.
             let k = length (filter is_read_op tr)
             in if 0 < k \<and> k \<le> length ws \<and> r = REG_SM0D0 then fst (ws ! (k - 1))
                else if 0 < k \<and> k \<le> length ws \<and> r = REG_SM0D1 then snd (ws ! (k - 1))
                else 0),
      oversleep = (\<lambda>tr. 0), shl_wide = (\<lambda>x n. 0)\<rparr>"

text \<open>The two messages of the specification's scenario: write 00 10, then read 4 bytes.\<close>

definition write2_msg :: i2c_msg where
  "write2_msg = \<lparr>addr = 0x50, flags = 0, len = 2, buf = buf_of [0x00, 0x10]\<rparr>"

definition read4_msg :: i2c_msg where
  "read4_msg = \<lparr>addr = 0x50, flags = I2C_M_RD, len = 4, buf = buf_of []\<rparr>"

text \<open>The hardware state after the one-byte write message ran on the idle controller.\<close>

definition after_write1 :: hw where
  "after_write1 = snd (snd (xfer_loop idle_env [write1_msg] hw0))"

subsection \<open>Names for the register writes of a write chunk\<close>

text \<open>
  The command word of line 299 and the three register writes of one pass of the
  write loop, for the chunk number \<open>pkt_num\<close> of \<open>l\<close> bytes.
\<close>

definition write_cmd :: "i2c_msg \<Rightarrow> u32" where
  "write_cmd pmsg = push_bit 16 0xFF OR push_bit 8 ((ucast (len pmsg) - 1) AND 0x7)
                      OR push_bit 4 SM0_MODE_WRITE OR 1"

definition chunk_writes :: "env \<Rightarrow> i2c_msg \<Rightarrow> nat \<Rightarrow> nat \<Rightarrow> event list" where
  "chunk_writes e pmsg pkt_num l =
     [Write REG_SM0D0 (ucast (pack_verb e (buf pmsg) pkt_num l)),
      Write REG_SM0D1 (ucast (drop_bit 32 (pack_verb e (buf pmsg) pkt_num l))),
      Write REG_SM0CTL1 (write_cmd pmsg)]"

text \<open>
  The window as the specification describes it, to be compared with
  \<open>pack_verb\<close>: the bytes of the chunk packed little-endian into 64 bits, byte
  \<open>j\<close> of the chunk at bit offset \<open>8 * j\<close>.
\<close>

definition window_le :: "(nat \<Rightarrow> u8) \<Rightarrow> nat \<Rightarrow> nat \<Rightarrow> u64" where
  "window_le b pkt_num l =
     fold (\<lambda>j w. w OR push_bit (8 * j) (ucast (b (j + pkt_num * 8)))) [0..<l] 0"

section \<open>Properties\<close>

subsection \<open>Which events mutate the hardware\<close>

text \<open>
  Polling, sleeping and dumping registers write nothing; a register write and
  a reset add one entry each to the log.
\<close>

lemma writes_log_w32 [simp]: "writes_log (mtk_i2c_w32 v r s) = writes_log s @ [Write r v]"
  by (simp add: writes_log_def mtk_i2c_w32_def)

lemma writes_log_r32 [simp]: "writes_log (snd (mtk_i2c_r32 e r s)) = writes_log s"
  by (simp add: writes_log_def mtk_i2c_r32_def Let_def)

lemma writes_log_readl [simp]: "writes_log (snd (readl_relaxed e r s)) = writes_log s"
  by (simp add: readl_relaxed_def)

lemma writes_log_usleep [simp]: "writes_log (usleep_range e lo hi s) = writes_log s"
  by (simp add: writes_log_def usleep_range_def Let_def)

lemma writes_log_device_reset [simp]: "writes_log (device_reset s) = writes_log s @ [DeviceReset]"
  by (simp add: writes_log_def device_reset_def)

lemma writes_log_poll_down_loop [simp]:
  "writes_log (snd (poll_down_loop e r msk timeout s)) = writes_log s"
proof (induction e r msk timeout s rule: poll_down_loop.induct)
  case (1 e r msk timeout s)
  show ?case
    by (subst poll_down_loop.simps) (simp add: "1.IH")
qed

lemma writes_log_poll_down_timeout [simp]:
  "writes_log (snd (poll_down_timeout e r msk s)) = writes_log s"
proof -
  have "writes_log (snd (poll_down_loop e r msk (now s + msecs_to_jiffies TIMEOUT_MS) s)) = writes_log s"
    by simp
  then show ?thesis
    by (cases "poll_down_loop e r msk (now s + msecs_to_jiffies TIMEOUT_MS) s")
       (auto simp: poll_down_timeout_def Let_def readl_relaxed_def mtk_i2c_r32_def writes_log_def split: prod.splits bool.splits)
qed

lemma writes_log_wait_idle [simp]: "writes_log (snd (mtk_i2c_wait_idle e s)) = writes_log s"
  by (simp add: mtk_i2c_wait_idle_def)

lemma writes_log_wait_done [simp]: "writes_log (snd (mtk_i2c_wait_done e s)) = writes_log s"
  by (simp add: mtk_i2c_wait_done_def)

lemma writes_log_dump_reg [simp]: "writes_log (mtk_i2c_dump_reg e s) = writes_log s"
  by (simp add: mtk_i2c_dump_reg_def)

lemma writes_log_reset [simp]:
  "writes_log (mtk_i2c_reset i2c s) = writes_log s @
     [DeviceReset,
      Write REG_SM0CTL0 (ODRAIN_HIGH_SM0 OR VSYNC_PULSE OR push_bit CLK_DIV_SHIFT (clk_div i2c)
                OR WAIT_HIGH OR SM0_EN),
      Write REG_SM0CFG2 0]"
  by (simp add: mtk_i2c_reset_def Let_def)

lemma writes_log_hw0 [simp]: "writes_log hw0 = []"
  by (simp add: writes_log_def hw0_def)

lemma writes_log_literal [simp]:
  "writes_log \<lparr>trace = tr, now = t\<rparr> = rev (filter is_mutation tr)"
  by (simp add: writes_log_def)

lemma writes_log_read_event [simp]:
  "writes_log (s\<lparr>trace := Read r v # trace s\<rparr>) = writes_log s"
  by (simp add: writes_log_def)

subsection \<open>Timeout poller\<close>

text \<open>
  A register whose masked bits never clear makes the poller fail; one whose
  masked bits are clear at the first sample makes it succeed at once.
\<close>

lemma poll_down_loop_stuck:
  "(\<And>tr. rd e tr r AND msk \<noteq> 0) \<Longrightarrow> \<not> fst (poll_down_loop e r msk timeout s)"
proof (induction e r msk timeout s rule: poll_down_loop.induct)
  case (1 e r msk timeout s)
  have busy: "fst (readl_relaxed e r s) AND msk \<noteq> 0"
    using "1.prems" by (simp add: readl_relaxed_def mtk_i2c_r32_def Let_def)
  show ?case
    using busy "1.IH" "1.prems" by (subst poll_down_loop.simps) simp
qed

lemma poll_down_timeout_stuck:
  "(\<And>tr. rd e tr r AND msk \<noteq> 0) \<Longrightarrow> fst (poll_down_timeout e r msk s) = - EAGAIN"
  using poll_down_loop_stuck [of e r msk "now s + msecs_to_jiffies TIMEOUT_MS" s]
  by (auto simp: poll_down_timeout_def Let_def readl_relaxed_def mtk_i2c_r32_def
           split: prod.splits bool.splits)

lemma poll_down_timeout_ready:
  "rd e (trace s) r AND msk = 0 \<Longrightarrow>
     poll_down_timeout e r msk s = (0, s\<lparr>trace := Read r (rd e (trace s) r) # trace s\<rparr>)"
  by (simp add: poll_down_timeout_def Let_def poll_down_loop.simps [of e r msk _ s]
        readl_relaxed_def mtk_i2c_r32_def)

lemma wait_idle_ready:
  "rd e (trace s) REG_SM0ST AND I2C_BUSY = 0 \<Longrightarrow>
     mtk_i2c_wait_idle e s = (0, s\<lparr>trace := Read REG_SM0ST (rd e (trace s) REG_SM0ST) # trace s\<rparr>)"
  by (simp add: mtk_i2c_wait_idle_def poll_down_timeout_ready)

lemma wait_done_ready:
  "rd e (trace s) REG_SM0CTL1 AND SM0_TRI_BUSY = 0 \<Longrightarrow>
     mtk_i2c_wait_done e s
       = (0, s\<lparr>trace := Read REG_SM0CTL1 (rd e (trace s) REG_SM0CTL1) # trace s\<rparr>)"
  by (simp add: mtk_i2c_wait_done_def poll_down_timeout_ready)

lemma wait_idle_quiet:
  "rd e = (\<lambda>tr r. 0) \<Longrightarrow>
     mtk_i2c_wait_idle e s = (0, s\<lparr>trace := Read REG_SM0ST 0 # trace s\<rparr>)"
  using wait_idle_ready [of e s] by simp

lemma wait_idle_result: "fst (mtk_i2c_wait_idle e s) = 0 \<or> fst (mtk_i2c_wait_idle e s) = - EAGAIN"
  by (auto simp: mtk_i2c_wait_idle_def poll_down_timeout_def Let_def split: prod.splits bool.splits)

text \<open>
  The loop ends without success only when the clock has reached the deadline.
\<close>

lemma poll_down_loop_expired:
  "poll_down_loop e r msk timeout s = (False, s1) \<Longrightarrow> timeout \<le> now s1"
proof (induction e r msk timeout s rule: poll_down_loop.induct)
  case (1 e r msk timeout s)
  from "1.prems" show ?case
    by (subst (asm) poll_down_loop.simps) (auto split: if_splits dest: "1.IH")
qed

text \<open>The poller fails only with \<open>-EAGAIN\<close>, and only once the deadline has passed.\<close>

lemma poll_down_timeout_fails_late:
  assumes "fst (poll_down_timeout e r msk s) \<noteq> 0"
  shows "fst (poll_down_timeout e r msk s) = - EAGAIN
         \<and> now s + msecs_to_jiffies TIMEOUT_MS \<le> now (snd (poll_down_timeout e r msk s))"
proof (cases "poll_down_loop e r msk (now s + msecs_to_jiffies TIMEOUT_MS) s")
  case (Pair ok s1)
  with assms have "\<not> ok"
    by (auto simp: poll_down_timeout_def Let_def)
  with Pair have loop: "poll_down_loop e r msk (now s + msecs_to_jiffies TIMEOUT_MS) s = (False, s1)"
    by simp
  from poll_down_loop_expired [OF loop] assms loop show ?thesis
    by (auto simp: poll_down_timeout_def Let_def readl_relaxed_def mtk_i2c_r32_def
             split: if_splits)
qed

text \<open>\<open>poll_up_timeout\<close>, which the driver does not use, has no final sample.\<close>

lemma poll_up_timeout_expired:
  "poll_up_loop e r msk (now s + msecs_to_jiffies TIMEOUT_MS) s = (False, s1) \<Longrightarrow>
     poll_up_timeout e r msk s = (- ETIMEDOUT, s1)"
  by (simp add: poll_up_timeout_def)

text \<open>
  Claim C8. Both waits of the engine, the idle wait and the operation-done wait,
  are \<open>poll_down_timeout\<close> on their register and bit. When the polling loop
  ends because the timeout has elapsed (the clock has reached the deadline), the
  poller reads the register once more: it returns 0 if the bit is clear in that
  final sample and the timeout error \<open>-EAGAIN\<close> only otherwise.
\<close>

theorem wait_final_sample:
  assumes "(w = mtk_i2c_wait_idle \<and> r = REG_SM0ST \<and> msk = I2C_BUSY)
           \<or> (w = mtk_i2c_wait_done \<and> r = REG_SM0CTL1 \<and> msk = SM0_TRI_BUSY)"
    and "poll_down_loop e r msk (now s + msecs_to_jiffies TIMEOUT_MS) s = (False, s1)"
  shows "now s + msecs_to_jiffies TIMEOUT_MS \<le> now s1
         \<and> w e s = (if rd e (trace s1) r AND msk = 0 then 0 else - EAGAIN,
                    s1\<lparr>trace := Read r (rd e (trace s1) r) # trace s1\<rparr>)"
proof -
  have "poll_down_timeout e r msk s =
          (if rd e (trace s1) r AND msk = 0 then 0 else - EAGAIN,
           s1\<lparr>trace := Read r (rd e (trace s1) r) # trace s1\<rparr>)"
    using assms(2) by (simp add: poll_down_timeout_def Let_def readl_relaxed_def mtk_i2c_r32_def)
  moreover have "w e s = poll_down_timeout e r msk s"
    using assms(1) by (auto simp: mtk_i2c_wait_idle_def mtk_i2c_wait_done_def)
  ultimately show ?thesis
    using poll_down_loop_expired [OF assms(2)] by simp
qed

lemma late_loop:
  "poll_down_loop late_env REG_SM0CTL1 SM0_TRI_BUSY (now hw0 + msecs_to_jiffies TIMEOUT_MS) hw0
     = (False, \<lparr>trace = [Usleep 1000100, Read REG_SM0CTL1 1], now = 1000100\<rparr>)"
  by (subst poll_down_loop.simps)
     (simp add: late_env_def hw0_def readl_relaxed_def mtk_i2c_r32_def
        usleep_range_def Let_def SM0_TRI_BUSY_def msecs_to_jiffies_def TIMEOUT_MS_def
        DELAY_INTERVAL_US_def)

theorem wait_final_sample_witness:
  "poll_down_loop late_env REG_SM0CTL1 SM0_TRI_BUSY (now hw0 + msecs_to_jiffies TIMEOUT_MS) hw0
     = (False, \<lparr>trace = [Usleep 1000100, Read REG_SM0CTL1 1], now = 1000100\<rparr>)
   \<and> mtk_i2c_wait_done late_env hw0
     = (0, \<lparr>trace = [Read REG_SM0CTL1 0, Usleep 1000100, Read REG_SM0CTL1 1], now = 1000100\<rparr>)"
proof -
  have inst: "(mtk_i2c_wait_done = mtk_i2c_wait_idle \<and> REG_SM0CTL1 = REG_SM0ST \<and> SM0_TRI_BUSY = I2C_BUSY)
           \<or> (mtk_i2c_wait_done = mtk_i2c_wait_done \<and> REG_SM0CTL1 = REG_SM0CTL1 \<and> SM0_TRI_BUSY = SM0_TRI_BUSY)"
    by simp
  have "rd late_env [Usleep 1000100, Read REG_SM0CTL1 1] REG_SM0CTL1 AND SM0_TRI_BUSY = 0"
    by (simp add: late_env_def)
  with wait_final_sample [OF inst late_loop] late_loop show ?thesis
    by (simp add: late_env_def)
qed

subsection \<open>Clock divisor\<close>

text \<open>
  Claim C7. For every input clock rate and desired bus frequency for which
  \<open>mtk_i2c_init\<close> derives a divisor, the divisor it stores is
  floor(rate / frequency) clamped to the field maximum 0xFFF, so the stored
  divisor never exceeds 0xFFF, and it is written into the control register
  with the fixed flags. With 40 MHz and 100 kHz the divisor is 400. No divisor
  is derived exactly when the frequency is 0, where the quotient does not exist
  and the division traps.
\<close>

theorem clk_div_clamped:
  "case mtk_i2c_init i2c s of
     None \<Rightarrow> cur_clk i2c = 0
   | Some (i2c1, s1) \<Rightarrow>
       cur_clk i2c \<noteq> 0
       \<and> unat (clk_div i2c1) = min (unat (clk_get_rate (clk i2c)) div unat (cur_clk i2c)) 0xFFF
       \<and> clk_div i2c1 \<le> 0xFFF
       \<and> (clk i2c = 40000000 \<and> cur_clk i2c = 100000 \<longrightarrow> clk_div i2c1 = 400)
       \<and> writes_log s1 = writes_log s @
           [DeviceReset,
            Write REG_SM0CTL0 (ODRAIN_HIGH_SM0 OR VSYNC_PULSE
               OR push_bit CLK_DIV_SHIFT (clk_div i2c1) OR WAIT_HIGH OR SM0_EN),
            Write REG_SM0CFG2 0]"
proof (cases "cur_clk i2c = 0")
  case True
  then show ?thesis by (simp add: mtk_i2c_init_def)
next
  case nz: False
  let ?d = "clk_get_rate (clk i2c) div cur_clk i2c"
  have d: "unat ?d = unat (clk_get_rate (clk i2c)) div unat (cur_clk i2c)"
    by (simp add: unat_div)
  show ?thesis
  proof (cases "?d > CLK_DIV_MASK")
    case True
    then have "unat ?d > 0xFFF"
      by (simp add: CLK_DIV_MASK_def word_less_nat_alt)
    with True d nz show ?thesis
      by (auto simp: mtk_i2c_init_def Let_def CLK_DIV_MASK_def clk_get_rate_def)
  next
    case False
    then have "unat ?d \<le> 0xFFF" "?d \<le> 0xFFF"
      by (simp_all add: CLK_DIV_MASK_def word_less_nat_alt not_less word_le_nat_alt)
    with False d nz show ?thesis
      by (auto simp: mtk_i2c_init_def Let_def CLK_DIV_MASK_def clk_get_rate_def)
  qed
qed

theorem clk_div_clamped_witness:
  "clk \<lparr>clk = 40000000, cur_clk = 100000, clk_div = 0\<rparr> = 40000000
   \<and> cur_clk \<lparr>clk = 40000000, cur_clk = 100000, clk_div = 0\<rparr> = 100000
   \<and> map_option (clk_div \<circ> fst)
        (mtk_i2c_init \<lparr>clk = 40000000, cur_clk = 100000, clk_div = 0\<rparr> hw0) = Some 400"
  using clk_div_clamped [of "\<lparr>clk = 40000000, cur_clk = 100000, clk_div = 0\<rparr>" hw0]
  by (auto split: option.splits)

subsection \<open>The transfer: register writes and the message loop\<close>

text \<open>
  Unfolding the loops once, the register writes of the phases of a message, and
  the fact that every step only adds to the log of writes.
\<close>

lemma mtk_i2c_read_loop_0 [simp]: "mtk_i2c_read_loop e 0 pkt_num b off s = (b, s)"
  by (simp add: mtk_i2c_read_loop.simps)

lemma xfer_write_loop_0 [simp]: "xfer_write_loop e pmsg 0 pkt_num s = s"
  by (simp add: xfer_write_loop.simps)

lemma writes_log_xfer_start [simp]:
  "writes_log (xfer_start e pmsg s) = writes_log s @
     [Write REG_SM0CTL1 (push_bit 16 0xFF OR push_bit 8 0 OR push_bit 4 SM0_MODE_START OR 1),
      Write REG_SM0D0 ((push_bit 1 (ucast (addr pmsg))
                        OR (if flags pmsg AND I2C_M_RD \<noteq> 0 then 1 else 0)) AND 0xFF),
      Write REG_SM0CTL1 (push_bit 16 0xFF OR push_bit 8 0 OR push_bit 4 SM0_MODE_WRITE OR 1)]"
  by (simp add: xfer_start_def Let_def)

lemma writes_log_xfer_stop [simp]:
  "writes_log (xfer_stop e s) = writes_log s @
     [Write REG_SM0CTL1 (push_bit 16 0xFF OR push_bit 8 0 OR push_bit 4 SM0_MODE_STOP OR 1)]"
  by (simp add: xfer_stop_def)

lemma mtk_i2c_read_loop_step:
  "n > 0 \<Longrightarrow> mtk_i2c_read_loop e n pkt_num b off s =
     (let plen = (if n > 8 then 8 else n);
          s1 = mtk_i2c_w32 (push_bit 16 0xFF OR push_bit 8 (of_nat plen - 1)
                            OR push_bit 4 SM0_MODE_READ_ACK OR 1) REG_SM0CTL1 s;
          s2 = snd (mtk_i2c_wait_done e s1);
          d0 = fst (mtk_i2c_r32 e REG_SM0D0 s2);
          s3 = snd (mtk_i2c_r32 e REG_SM0D0 s2);
          d1 = fst (mtk_i2c_r32 e REG_SM0D1 s3);
          s4 = snd (mtk_i2c_r32 e REG_SM0D1 s3);
          d = (ucast d0 OR push_bit 32 (ucast d1) :: u64);
          b1 = fold (\<lambda>i m. m(off + (i + pkt_num * 8) := ucast (drop_bit (8 * i) d)))
                 [0..<plen] b
      in mtk_i2c_read_loop e (n - plen) (pkt_num + 1) b1 off s4)"
  by (subst mtk_i2c_read_loop.simps) simp

lemma xfer_write_loop_step:
  "plen > 0 \<Longrightarrow> xfer_write_loop e pmsg plen pkt_num s =
     (let l = (if plen > 8 then 8 else plen);
          verb = pack_verb e (buf pmsg) pkt_num l;
          s1 = mtk_i2c_w32 (ucast verb) REG_SM0D0 s;
          s2 = mtk_i2c_w32 (ucast (drop_bit 32 verb)) REG_SM0D1 s1;
          s3 = mtk_i2c_w32 (push_bit 16 0xFF
                            OR push_bit 8 ((ucast (len pmsg) - 1) AND 0x7)
                            OR push_bit 4 SM0_MODE_WRITE OR 1) REG_SM0CTL1 s2;
          s4 = snd (mtk_i2c_wait_done e s3)
      in xfer_write_loop e pmsg (plen - l) (pkt_num + 1) s4)"
  by (subst xfer_write_loop.simps) simp

text \<open>
  A read of one byte is one read operation; the byte stored is the low byte of
  \<open>REG_SM0D0\<close>.
\<close>

lemma read_one:
  "mtk_i2c_read e (Suc 0) b off s =
     (b(off := ucast (fst (mtk_i2c_r32 e REG_SM0D0
                 (snd (mtk_i2c_wait_done e
                    (mtk_i2c_w32 (push_bit 16 0xFF OR push_bit 8 0
                        OR push_bit 4 SM0_MODE_READ_ACK OR 1) REG_SM0CTL1 s)))))),
      snd (mtk_i2c_r32 e REG_SM0D1 (snd (mtk_i2c_r32 e REG_SM0D0
                 (snd (mtk_i2c_wait_done e
                    (mtk_i2c_w32 (push_bit 16 0xFF OR push_bit 8 0
                        OR push_bit 4 SM0_MODE_READ_ACK OR 1) REG_SM0CTL1 s)))))))"
  apply (simp add: mtk_i2c_read_def mtk_i2c_read_loop_step Let_def)
  apply (simp add: mtk_i2c_r32_def Let_def)
  apply (rule arg_cong [where f="\<lambda>v. b(off := v)"])
  apply (rule bit_word_eqI)
  apply (auto simp: bit_simps)
  done


lemma writes_log_read_one:
  "writes_log (snd (mtk_i2c_read e (Suc 0) b off s)) = writes_log s @
     [Write REG_SM0CTL1 (push_bit 16 0xFF OR push_bit 8 0 OR push_bit 4 SM0_MODE_READ_ACK OR 1)]"
  by (simp add: read_one)

text \<open>
  The bytes one pass of the read loop stores.
\<close>

lemma read_chunk_store:
  "fold (\<lambda>i m. m(off + (i + p * 8) := g i)) [0..<n] b k =
     (if off + p * 8 \<le> k \<and> k < off + p * 8 + n then g (k - (off + p * 8)) else b k)"
  by (induction n) (auto simp: less_Suc_eq)

lemma read_chunk_store0:
  "fold (\<lambda>i m. m(i := g i)) [0..<n] b k = (if k < n then g k else b k)"
  using read_chunk_store [of 0 0 g n b k] by simp

lemma prefix_read_loop:
  "prefix (writes_log s) (writes_log (snd (mtk_i2c_read_loop e n pkt_num b off s)))"
proof (induction e n pkt_num b off s rule: mtk_i2c_read_loop.induct)
  case (1 e n pkt_num b off s)
  show ?case
  proof (cases "n > 0")
    case True
    from "1.IH" [OF True refl refl refl refl refl refl refl refl refl]
    show ?thesis
      by (subst mtk_i2c_read_loop.simps) (auto simp: True Let_def dest: append_prefixD)
  next
    case False
    then show ?thesis by simp
  qed
qed

lemma prefix_write_loop:
  "prefix (writes_log s) (writes_log (xfer_write_loop e pmsg plen pkt_num s))"
proof (induction e pmsg plen pkt_num s rule: xfer_write_loop.induct)
  case (1 e pmsg plen pkt_num s)
  show ?case
  proof (cases "plen > 0")
    case True
    from "1.IH" [OF True refl refl refl refl refl refl]
    show ?thesis
      by (subst xfer_write_loop.simps) (auto simp: True Let_def dest: append_prefixD)
  next
    case False
    then show ?thesis by simp
  qed
qed

lemma prefix_read:
  "prefix (writes_log s) (writes_log (snd (mtk_i2c_read e n b off s)))"
  by (simp add: mtk_i2c_read_def prefix_read_loop)

lemma prefix_stop: "prefix (writes_log s) (writes_log s1) \<Longrightarrow> prefix (writes_log s) (writes_log (xfer_stop e s1))"
  by (simp add: prefix_def) auto

lemma prefix_xfer_data:
  "prefix (writes_log s) (writes_log (snd (snd (xfer_data e pmsg s))))"
  by (auto simp: xfer_data_def Let_def intro!: prefix_stop prefix_read prefix_write_loop
           intro: prefix_order.trans [OF prefix_read prefix_read])

lemma prefix_xfer_msg:
  "prefix (writes_log s) (writes_log (snd (snd (xfer_msg e pmsg s))))"
proof -
  have "prefix (writes_log s) (writes_log (xfer_start e pmsg
          (mtk_i2c_w32 v REG_SM0CFG0 (snd (mtk_i2c_wait_idle e s)))))" for v
    by simp
  then show ?thesis
    by (auto simp: xfer_msg_def Let_def intro: prefix_order.trans [OF _ prefix_xfer_data])
qed

lemma prefix_xfer_loop:
  "prefix (writes_log s) (writes_log (snd (snd (xfer_loop e msgs s))))"
proof (induction msgs arbitrary: s)
  case Nil
  show ?case by simp
next
  case (Cons m msgs)
  show ?case
    using prefix_xfer_msg [of s e m] Cons.IH [of "snd (snd (xfer_msg e m s))"]
    by (auto split: prod.splits option.splits)
qed

text \<open>
  When the messages before \<open>pmsg\<close> ran to their end, the entry point continues
  with the body of the loop for \<open>pmsg\<close>.
\<close>

lemma xfer_loop_append:
  "xfer_loop e pre s0 = (None, pre1, s) \<Longrightarrow>
     xfer_loop e (pre @ msgs) s0 =
       (case xfer_loop e msgs s of (x, msgs1, s1) \<Rightarrow> (x, pre1 @ msgs1, s1))"
proof (induction pre arbitrary: s0 pre1)
  case Nil
  then show ?case by (auto split: prod.splits)
next
  case (Cons m pre)
  from Cons.prems show ?case
    by (auto split: prod.splits option.splits dest!: Cons.IH)
qed

lemma master_xfer_at:
  assumes "xfer_loop e pre s0 = (None, pre1, s)"
  shows "mtk_i2c_master_xfer e i2c (pre @ pmsg # post) s0 =
     (case xfer_msg e pmsg s of
        (Some (Ret r), pmsg1, s1) \<Rightarrow> (r, pre1 @ pmsg1 # post, s1)
      | (Some (Err_timeout r), pmsg1, s1) \<Rightarrow>
          (r, pre1 @ pmsg1 # post, mtk_i2c_reset i2c (mtk_i2c_dump_reg e s1))
      | (None, pmsg1, s1) \<Rightarrow>
          (case xfer_loop e post s1 of
             (None, post1, s2) \<Rightarrow> (int (length pre) + 1 + int (length post), pre1 @ pmsg1 # post1, s2)
           | (Some (Ret r), post1, s2) \<Rightarrow> (r, pre1 @ pmsg1 # post1, s2)
           | (Some (Err_timeout r), post1, s2) \<Rightarrow>
               (r, pre1 @ pmsg1 # post1, mtk_i2c_reset i2c (mtk_i2c_dump_reg e s2))))"
  by (simp add: mtk_i2c_master_xfer_def xfer_loop_append [OF assms]
           split: prod.splits option.splits exit.splits)

lemma take_drop_prefix:
  "prefix (xs @ ws) L \<Longrightarrow> n = length ws \<Longrightarrow> take n (drop (length xs) L) = ws"
  by (auto simp: prefix_def)

lemma prefix_master_xfer_at:
  assumes "xfer_loop e pre s0 = (None, pre1, s)"
  shows "prefix (writes_log (snd (snd (xfer_msg e pmsg s))))
           (writes_log (snd (snd (mtk_i2c_master_xfer e i2c (pre @ pmsg # post) s0))))"
proof -
  have mono: "prefix (writes_log s1) (writes_log s2)"
    if "xfer_loop e post s1 = (x, post1, s2)" for s1 x post1 s2
    using prefix_xfer_loop [of s1 e post] that by simp
  show ?thesis
    by (auto simp: master_xfer_at [OF assms] split: prod.splits option.splits exit.splits
             intro: prefix_prefix dest: mono)
qed

subsection \<open>The write path: packing of the data registers\<close>

text \<open>
  The upper half of \<open>verb\<close> never holds data. Every term that is or-ed into
  \<open>verb\<close> is a 32-bit \<open>int\<close> extended with its sign, so the upper 32 bits are
  all zero or all one, whatever the bytes are and whatever the machine makes of
  the shifts by 32 and more.
\<close>

lemma hi_scast: "(ucast (drop_bit 32 (scast (w :: u32) :: u64)) :: u32) = (if bit w 31 then - 1 else 0)"
  by (rule bit_word_eqI) (auto simp: bit_simps min_def)

lemma hi_or:
  "(ucast (drop_bit 32 (v OR w :: u64)) :: u32) = ucast (drop_bit 32 v) OR ucast (drop_bit 32 w)"
  by (rule bit_word_eqI) (auto simp: bit_simps)

lemma hi_fold:
  "(ucast (drop_bit 32 (v :: u64)) :: u32) \<in> {0, - 1} \<Longrightarrow>
   (ucast (drop_bit 32 (fold (\<lambda>j verb. verb OR scast (g j :: u32)) js v)) :: u32) \<in> {0, - 1}"
proof (induction js arbitrary: v)
  case Nil
  then show ?case by simp
next
  case (Cons j js)
  have "(ucast (drop_bit 32 (v OR scast (g j))) :: u32) \<in> {0, - 1}"
    unfolding hi_or hi_scast using Cons.prems by auto
  from Cons.IH [OF this] show ?case by simp
qed

lemma pack_verb_hi:
  "(ucast (drop_bit 32 (pack_verb e b pkt_num l)) :: u32) \<in> {0, 0xFFFFFFFF}"
proof -
  have m1: "(- 1 :: u32) = 0xFFFFFFFF" by simp
  have "(ucast (drop_bit 32 (pack_verb e b pkt_num l)) :: u32) \<in> {0, - 1}"
    unfolding pack_verb_def by (rule hi_fold) simp
  then show ?thesis unfolding m1 .
qed

text \<open>
  The register writes of the whole write loop: one chunk of three writes for
  every started group of 8 bytes, each with the same command word.
\<close>

lemma xfer_write_loop_log:
  "writes_log (xfer_write_loop e pmsg plen pkt_num s) =
     writes_log s @
     concat (map (\<lambda>k. chunk_writes e pmsg (pkt_num + k) (min 8 (plen - 8 * k)))
               [0..<(plen + 7) div 8])"
proof (induction e pmsg plen pkt_num s rule: xfer_write_loop.induct)
  case (1 e pmsg plen pkt_num s)
  show ?case
  proof (cases "plen > 0")
    case False
    then show ?thesis by simp
  next
    case True
    let ?l = "if plen > 8 then 8 else plen"
    let ?s4 = "snd (mtk_i2c_wait_done e
                 (mtk_i2c_w32 (write_cmd pmsg) REG_SM0CTL1
                   (mtk_i2c_w32 (ucast (drop_bit 32 (pack_verb e (buf pmsg) pkt_num ?l))) REG_SM0D1
                     (mtk_i2c_w32 (ucast (pack_verb e (buf pmsg) pkt_num ?l)) REG_SM0D0 s))))"
    have step: "xfer_write_loop e pmsg plen pkt_num s
                  = xfer_write_loop e pmsg (plen - ?l) (pkt_num + 1) ?s4"
      using True by (simp add: xfer_write_loop_step Let_def write_cmd_def)
    have ih: "writes_log (xfer_write_loop e pmsg (plen - ?l) (pkt_num + 1) ?s4) =
                writes_log ?s4 @
                concat (map (\<lambda>k. chunk_writes e pmsg (pkt_num + 1 + k) (min 8 (plen - ?l - 8 * k)))
                          [0..<(plen - ?l + 7) div 8])"
      using "1.IH" [OF True refl refl refl refl refl refl]
      by (simp add: write_cmd_def)
    have s4: "writes_log ?s4 = writes_log s @ chunk_writes e pmsg pkt_num ?l"
      by (simp add: chunk_writes_def)
    have n: "(plen + 7) div 8 = Suc ((plen - ?l + 7) div 8)"
      using True by auto
    have l: "?l = min 8 plen" by simp
    have shift: "map (\<lambda>k. chunk_writes e pmsg (pkt_num + 1 + k) (min 8 (plen - ?l - 8 * k)))
                   [0..<(plen - ?l + 7) div 8]
               = map (\<lambda>k. chunk_writes e pmsg (pkt_num + k) (min 8 (plen - 8 * k)))
                   (map Suc [0..<(plen - ?l + 7) div 8])"
      by (auto simp: min_def)
    show ?thesis
      unfolding step ih s4 n shift
      by (simp add: upt_conv_Cons map_Suc_upt del: upt_Suc)
  qed
qed

text \<open>
  For a chunk of at most 4 bytes whose byte 3, if there is one, is below 0x80,
  \<open>pack_verb\<close> is the little-endian window.
\<close>

lemma fold_or_cong:
  "(\<And>j. j \<in> set js \<Longrightarrow> g j = h j) \<Longrightarrow>
     fold (\<lambda>j (w :: u64). w OR g j) js v = fold (\<lambda>j w. w OR h j) js v"
  by (induction js arbitrary: v) auto

lemma scast_shifted_byte:
  assumes "j < 4" and "j = 3 \<longrightarrow> \<not> bit x 7"
  shows "(scast (push_bit (j * 8) (ucast (x :: u8) :: u32)) :: u64) = push_bit (8 * j) (ucast x)"
proof (rule bit_word_eqI)
  fix n assume n: "n < LENGTH(64)"
  have js: "j = 0 \<or> j = 1 \<or> j = 2 \<or> j = 3"
    using assms(1) by auto
  have top: "\<not> bit (push_bit (j * 8) (ucast x :: u32)) 31"
    using js assms(2) by (auto simp: bit_simps dest: bit_imp_le_length)
  show "bit (scast (push_bit (j * 8) (ucast x :: u32)) :: u64) n
          = bit (push_bit (8 * j) (ucast x) :: u64) n"
  proof (cases "n < 31")
    case True
    with n assms(1) show ?thesis
      by (auto simp: bit_simps min_def mult.commute)
  next
    case False
    then have "min 31 n = 31" by simp
    moreover have "\<not> bit (push_bit (8 * j) (ucast x) :: u64) n"
    proof
      assume b: "bit (push_bit (8 * j) (ucast x) :: u64) n"
      then have "n - 8 * j < 8" "8 * j \<le> n"
        by (auto simp: bit_simps dest: bit_imp_le_length)
      with False assms(1) have "j = 3" "n = 31" by auto
      with b assms(2) show False by (auto simp: bit_simps)
    qed
    moreover have "\<not> bit (push_bit (j * 8) (ucast x :: u32)) n"
      using False top by (cases "n = 31") (auto dest: bit_imp_le_length)
    ultimately show ?thesis
      using n top by (simp add: bit_word_scast_iff)
  qed
qed

lemma pack_verb_short:
  assumes "l \<le> 4" and "l = 4 \<longrightarrow> \<not> bit (b (3 + pkt_num * 8)) 7"
  shows "pack_verb e b pkt_num l = window_le b pkt_num l"
  unfolding pack_verb_def window_le_def
proof (rule fold_or_cong)
  fix j assume "j \<in> set [0..<l]"
  with assms have j: "j < 4" "j = 3 \<longrightarrow> \<not> bit (b (j + pkt_num * 8)) 7" by auto
  then have "j * 8 < 32" by simp
  then show "(scast (c_shl e (ucast (b (j + pkt_num * 8))) (j * 8)) :: u64)
               = push_bit (8 * j) (ucast (b (j + pkt_num * 8)))"
    using scast_shifted_byte [OF j] by (simp add: c_shl_def)
qed

subsection \<open>The environments and messages used as inputs\<close>

text \<open>
  What the waits return on the environments used as inputs, the windows of the
  example chunks, and the one-byte write message on the idle controller.
\<close>

lemma wait_idle_idle_env:
  "mtk_i2c_wait_idle idle_env s = (0, s\<lparr>trace := Read REG_SM0ST 0 # trace s\<rparr>)"
  using wait_idle_ready [of idle_env s] by (simp add: idle_env_def)

lemma wait_done_idle_env:
  "mtk_i2c_wait_done idle_env s = (0, s\<lparr>trace := Read REG_SM0CTL1 0 # trace s\<rparr>)"
  using wait_done_ready [of idle_env s] by (simp add: idle_env_def)

lemma wait_idle_busy_env: "fst (mtk_i2c_wait_idle busy_env s) = - EAGAIN"
  unfolding mtk_i2c_wait_idle_def
  by (rule poll_down_timeout_stuck) (simp add: busy_env_def I2C_BUSY_def)

lemma wait_idle_bogus_env:
  "mtk_i2c_wait_idle bogus_env s = (0, s\<lparr>trace := Read REG_SM0ST 0 # trace s\<rparr>)"
  using wait_idle_ready [of bogus_env s] by (simp add: bogus_env_def)

lemma wait_done_bogus_env:
  "mtk_i2c_wait_done bogus_env s = (0, s\<lparr>trace := Read REG_SM0CTL1 0 # trace s\<rparr>)"
  using wait_done_ready [of bogus_env s] by (simp add: bogus_env_def)

lemma wait_idle_hung_env:
  "mtk_i2c_wait_idle hung_env s = (0, s\<lparr>trace := Read REG_SM0ST 0 # trace s\<rparr>)"
  using wait_idle_ready [of hung_env s] by (simp add: hung_env_def)

lemma wait_done_hung_env: "fst (mtk_i2c_wait_done hung_env s) = - EAGAIN"
  unfolding mtk_i2c_wait_done_def
  by (rule poll_down_timeout_stuck) (simp add: hung_env_def SM0_TRI_BUSY_def)

lemma wait_done_echo_env:
  "mtk_i2c_wait_done (echo_env ws) s = (0, s\<lparr>trace := Read REG_SM0CTL1 0 # trace s\<rparr>)"
  using wait_done_ready [of "echo_env ws" s] by (simp add: echo_env_def Let_def)

lemma pack_one_byte: "pack_verb e (buf write1_msg) 0 (Suc 0) = 0xAB"
  by (simp add: pack_verb_def write1_msg_def buf_of_def c_shl_def)

lemma pack_second_chunk: "pack_verb e (buf write12_msg) (Suc 0) 4 = 0x0C0B0A09"
  by (simp add: pack_verb_def write12_msg_def buf_of_def c_shl_def upt_rec)

lemma window_le_write8: "window_le (buf write8_msg) 0 8 = 0x8877665544332211"
  by (simp add: window_le_def write8_msg_def buf_of_def upt_rec)

lemma write1_executed:
  "xfer_loop idle_env [write1_msg] hw0 = (None, [write1_msg], after_write1)"
  by (simp add: after_write1_def xfer_msg_def xfer_data_def wait_idle_idle_env Let_def
        write1_msg_def I2C_M_TEN_def I2C_M_RD_def I2C_M_RECV_LEN_def)

lemma write1_log:
  "writes_log after_write1
     = [Write REG_SM0CFG0 0x50, Write REG_SM0CTL1 0xFF0011, Write REG_SM0D0 0xA0,
        Write REG_SM0CTL1 0xFF0021, Write REG_SM0D0 0xAB, Write REG_SM0D1 0,
        Write REG_SM0CTL1 0xFF0021, Write REG_SM0CTL1 0xFF0031]"
proof -
  have m: "len write1_msg = 1" "flags write1_msg = 0" "addr write1_msg = 0x50"
    by (simp_all add: write1_msg_def)
  show ?thesis
    by (simp add: after_write1_def xfer_msg_def xfer_data_def wait_idle_idle_env Let_def
          xfer_write_loop_step m pack_one_byte I2C_M_TEN_def I2C_M_RD_def
          I2C_M_RECV_LEN_def I2C_DEVADDR_MASK_def SM0_MODE_START_def SM0_MODE_WRITE_def
          SM0_MODE_STOP_def)
qed

subsection \<open>The scenario of two messages\<close>

text \<open>
  On an idle controller the request of a 2-byte write and a 4-byte read runs as
  the specification's scenario says: start, address, one write operation of two
  bytes, stop; start, address, one read operation of four bytes, stop; the
  entry point returns 2.
\<close>

lemma pack_two_bytes: "pack_verb e (buf write2_msg) 0 2 = 0x1000"
  by (simp add: pack_verb_def write2_msg_def buf_of_def c_shl_def upt_rec)

lemma scenario_write_then_read:
  "fst (mtk_i2c_master_xfer idle_env i2c0 [write2_msg, read4_msg] hw0) = 2
   \<and> writes_log (snd (snd (mtk_i2c_master_xfer idle_env i2c0 [write2_msg, read4_msg] hw0)))
       = [Write REG_SM0CFG0 0x50, Write REG_SM0CTL1 0xFF0011, Write REG_SM0D0 0xA0,
          Write REG_SM0CTL1 0xFF0021, Write REG_SM0D0 0x1000, Write REG_SM0D1 0,
          Write REG_SM0CTL1 0xFF0121, Write REG_SM0CTL1 0xFF0031,
          Write REG_SM0CFG0 0x50, Write REG_SM0CTL1 0xFF0011, Write REG_SM0D0 0xA1,
          Write REG_SM0CTL1 0xFF0021, Write REG_SM0CTL1 0xFF0351,
          Write REG_SM0CTL1 0xFF0031]"
proof -
  have w: "len write2_msg = 2" "flags write2_msg = 0" "addr write2_msg = 0x50"
    by (simp_all add: write2_msg_def)
  have r: "len read4_msg = 4" "flags read4_msg = I2C_M_RD" "addr read4_msg = 0x50"
    by (simp_all add: read4_msg_def)
  show ?thesis
    by (simp add: mtk_i2c_master_xfer_def xfer_msg_def xfer_data_def wait_idle_idle_env Let_def
          xfer_write_loop_step mtk_i2c_read_def mtk_i2c_read_loop_step w r pack_two_bytes
          I2C_M_TEN_def I2C_M_RD_def I2C_M_RECV_LEN_def I2C_DEVADDR_MASK_def
          SM0_MODE_START_def SM0_MODE_WRITE_def SM0_MODE_STOP_def SM0_MODE_READ_ACK_def)
qed

subsection \<open>Argument checks\<close>

text \<open>
  Claim C9 as stated fails: the idle wait comes before the check of the 10-bit
  flag. On a controller that stays busy a message with the flag set ends in the
  timeout error \<open>-EAGAIN\<close>, not in \<open>-EINVAL\<close>, and the reset that follows
  writes two registers.
\<close>

theorem ten_bit_counterexample:
  "fst (mtk_i2c_master_xfer busy_env i2c0 [ten_msg] hw0) = - EAGAIN
   \<and> fst (mtk_i2c_master_xfer busy_env i2c0 [ten_msg] hw0) \<noteq> - EINVAL
   \<and> writes_log (snd (snd (mtk_i2c_master_xfer busy_env i2c0 [ten_msg] hw0)))
       = [DeviceReset, Write REG_SM0CTL0 0x91900042, Write REG_SM0CFG2 0]"
  by (simp add: mtk_i2c_master_xfer_def xfer_msg_def Let_def wait_idle_busy_env
        EAGAIN_def EINVAL_def i2c0_def
        ODRAIN_HIGH_SM0_def VSYNC_PULSE_def VSYNC_SHIFT_def CLK_DIV_SHIFT_def WAIT_HIGH_def SM0_EN_def)

text \<open>
  Claim C9, amended. For every message with the 10-bit-address flag set, at any
  position of a request whose earlier messages were executed: if the idle wait
  for that message succeeds, the entry point returns \<open>-EINVAL\<close>, leaves the
  messages untouched and performs no register write for that message; if the
  idle wait times out, it returns \<open>-EAGAIN\<close> and the only writes are those of
  the reset.
\<close>

theorem ten_bit_rejected:
  assumes "xfer_loop e pre s0 = (None, pre1, s)"
    and "flags pmsg AND I2C_M_TEN \<noteq> 0"
  shows "(fst (mtk_i2c_wait_idle e s) = 0 \<longrightarrow>
            mtk_i2c_master_xfer e i2c (pre @ pmsg # post) s0
              = (- EINVAL, pre1 @ pmsg # post, snd (mtk_i2c_wait_idle e s))
            \<and> writes_log (snd (snd (mtk_i2c_master_xfer e i2c (pre @ pmsg # post) s0)))
                = writes_log s)
       \<and> (fst (mtk_i2c_wait_idle e s) \<noteq> 0 \<longrightarrow>
            fst (mtk_i2c_master_xfer e i2c (pre @ pmsg # post) s0) = - EAGAIN
            \<and> writes_log (snd (snd (mtk_i2c_master_xfer e i2c (pre @ pmsg # post) s0)))
                = writes_log s @
                    [DeviceReset,
                     Write REG_SM0CTL0 (ODRAIN_HIGH_SM0 OR VSYNC_PULSE
                        OR push_bit CLK_DIV_SHIFT (clk_div i2c) OR WAIT_HIGH OR SM0_EN),
                     Write REG_SM0CFG2 0])"
  using assms(2) wait_idle_result [of e s]
  by (auto simp: master_xfer_at [OF assms(1)] xfer_msg_def Let_def)

theorem ten_bit_rejected_witness:
  "xfer_loop idle_env [write1_msg] hw0 = (None, [write1_msg], after_write1)
   \<and> flags ten_msg AND I2C_M_TEN \<noteq> 0
   \<and> fst (mtk_i2c_wait_idle idle_env after_write1) = 0
   \<and> fst (mtk_i2c_master_xfer idle_env i2c0 [write1_msg, ten_msg] hw0) = - EINVAL
   \<and> writes_log (snd (snd (mtk_i2c_master_xfer idle_env i2c0 [write1_msg, ten_msg] hw0)))
       = [Write REG_SM0CFG0 0x50, Write REG_SM0CTL1 0xFF0011, Write REG_SM0D0 0xA0,
          Write REG_SM0CTL1 0xFF0021, Write REG_SM0D0 0xAB, Write REG_SM0D1 0,
          Write REG_SM0CTL1 0xFF0021, Write REG_SM0CTL1 0xFF0031]"
proof -
  have b: "flags ten_msg AND I2C_M_TEN \<noteq> 0" by (simp add: ten_msg_def I2C_M_TEN_def)
  have c: "fst (mtk_i2c_wait_idle idle_env after_write1) = 0" by (simp add: wait_idle_idle_env)
  from ten_bit_rejected [OF write1_executed b, of i2c0 "[]"] c
  have "mtk_i2c_master_xfer idle_env i2c0 ([write1_msg] @ [ten_msg]) hw0
          = (- EINVAL, [write1_msg] @ [ten_msg], snd (mtk_i2c_wait_idle idle_env after_write1))
        \<and> writes_log (snd (snd (mtk_i2c_master_xfer idle_env i2c0 ([write1_msg] @ [ten_msg]) hw0)))
          = writes_log after_write1"
    by blast
  with write1_executed b c show ?thesis
    by (simp add: write1_log del: xfer_loop.simps)
qed

text \<open>
  Claim C5 as stated fails: the address-config register is written before the
  length is checked. An empty message on an idle controller is rejected with
  \<open>-EINVAL\<close> after one register write.
\<close>

theorem zero_length_counterexample:
  "fst (mtk_i2c_master_xfer idle_env i2c0 [empty_msg] hw0) = - EINVAL
   \<and> writes_log (snd (snd (mtk_i2c_master_xfer idle_env i2c0 [empty_msg] hw0)))
       = [Write REG_SM0CFG0 0x50]
   \<and> writes_log (snd (snd (mtk_i2c_master_xfer idle_env i2c0 [empty_msg] hw0)))
       \<noteq> writes_log hw0"
  by (simp add: mtk_i2c_master_xfer_def xfer_msg_def Let_def wait_idle_idle_env
        empty_msg_def I2C_M_TEN_def I2C_DEVADDR_MASK_def hw0_def)

text \<open>
  Claim C5, amended. For every message with buffer length 0, at any position of
  a request whose earlier messages were executed, once the idle wait for that
  message has succeeded: the entry point returns \<open>-EINVAL\<close> and leaves the
  messages untouched. No operation is issued (the command register
  \<open>REG_SM0CTL1\<close> is not written); the only register write for that message
  is the 7-bit address into the address-config register, and it happens exactly
  when the 10-bit flag is clear.
\<close>

theorem zero_length_rejected:
  assumes "xfer_loop e pre s0 = (None, pre1, s)"
    and "len pmsg = 0"
    and "fst (mtk_i2c_wait_idle e s) = 0"
  shows "fst (mtk_i2c_master_xfer e i2c (pre @ pmsg # post) s0) = - EINVAL
       \<and> fst (snd (mtk_i2c_master_xfer e i2c (pre @ pmsg # post) s0)) = pre1 @ pmsg # post
       \<and> writes_log (snd (snd (mtk_i2c_master_xfer e i2c (pre @ pmsg # post) s0)))
           = writes_log s @
               (if flags pmsg AND I2C_M_TEN \<noteq> 0 then []
                else [Write REG_SM0CFG0 (ucast (addr pmsg) AND I2C_DEVADDR_MASK)])"
  using assms(2,3)
  by (auto simp: master_xfer_at [OF assms(1)] xfer_msg_def Let_def)

theorem zero_length_rejected_witness:
  "xfer_loop idle_env [] hw0 = (None, [], hw0)
   \<and> len empty_msg = 0
   \<and> fst (mtk_i2c_wait_idle idle_env hw0) = 0
   \<and> fst (mtk_i2c_master_xfer idle_env i2c0 [empty_msg] hw0) = - EINVAL
   \<and> writes_log (snd (snd (mtk_i2c_master_xfer idle_env i2c0 [empty_msg] hw0)))
        = [Write REG_SM0CFG0 0x50]"
proof -
  have a: "xfer_loop idle_env [] hw0 = (None, [], hw0)" by simp
  have b: "len empty_msg = 0" by (simp add: empty_msg_def)
  have c: "fst (mtk_i2c_wait_idle idle_env hw0) = 0" by (simp add: wait_idle_idle_env)
  from zero_length_rejected [OF a b c, of i2c0 "[]"] a b c show ?thesis
    by (simp add: empty_msg_def I2C_M_TEN_def I2C_DEVADDR_MASK_def)
qed

subsection \<open>Addresses wider than seven bits\<close>

text \<open>
  The transfer depends on the address of a message through its low seven bits
  only: the return value, the register traffic and the buffers are those of the
  same message with the address truncated.
\<close>

lemma bit_127: "bit (127 :: int) k \<longleftrightarrow> k < 7"
  using bit_mask_iff [of 7 k, where ?'a = int] by (simp add: mask_eq_exp_minus_1)

lemma bit_255: "bit (255 :: int) k \<longleftrightarrow> k < 8"
  using bit_mask_iff [of 8 k, where ?'a = int] by (simp add: mask_eq_exp_minus_1)

lemma low7_cfg: "ucast (a AND 0x7F :: u16) AND (0x7F :: u32) = ucast a AND 0x7F"
  by (rule bit_word_eqI) (auto simp: bit_simps dest: bit_imp_le_length)

lemma low7_shifted:
  "0 < k \<Longrightarrow> (push_bit k (ucast (a AND 0x7F :: u16)) OR d) AND (0xFF :: u32)
     = (push_bit k (ucast a) OR d) AND 0xFF"
  by (rule bit_word_eqI) (auto simp: bit_simps bit_127 bit_255 dest: bit_imp_le_length)

lemma xfer_start_addr:
  "xfer_start e (pmsg\<lparr>addr := a AND 0x7F\<rparr>) s = xfer_start e (pmsg\<lparr>addr := a\<rparr>) s"
proof -
  have g: "(ucast (a AND 0x7F :: u16) * 2 OR d) AND (0xFF :: u32) = (ucast a * 2 OR d) AND 0xFF"
    for d using low7_shifted [of 1 a d] by simp
  have g0: "ucast (a AND 0x7F :: u16) * 2 AND (0xFF :: u32) = ucast a * 2 AND 0xFF"
    using g [of 0] by simp
  show ?thesis
    by (simp add: xfer_start_def Let_def g g0)
qed

lemma xfer_write_loop_addr:
  "xfer_write_loop e (pmsg\<lparr>addr := a\<rparr>) plen pkt_num s = xfer_write_loop e pmsg plen pkt_num s"
proof (induction e pmsg plen pkt_num s rule: xfer_write_loop.induct)
  case (1 e pmsg plen pkt_num s)
  show ?case
  proof (cases "plen > 0")
    case True
    from "1.IH" [OF True refl refl refl refl refl refl] True show ?thesis
      by (simp add: xfer_write_loop.simps [of e pmsg plen pkt_num s]
            xfer_write_loop.simps [of e "pmsg\<lparr>addr := a\<rparr>" plen pkt_num s] Let_def)
  next
    case False
    then show ?thesis by simp
  qed
qed

lemma xfer_data_addr:
  "xfer_data e (pmsg\<lparr>addr := a\<rparr>) s =
     (case xfer_data e pmsg s of (x, m, s1) \<Rightarrow> (x, m\<lparr>addr := a\<rparr>, s1))"
  by (simp add: xfer_data_def Let_def xfer_write_loop_addr)


lemma xfer_msg_addr:
  "xfer_msg e (pmsg\<lparr>addr := a\<rparr>) s =
     (case xfer_msg e (pmsg\<lparr>addr := a AND 0x7F\<rparr>) s of (x, m, s1) \<Rightarrow> (x, m\<lparr>addr := a\<rparr>, s1))"
proof -
  have data: "xfer_data e (pmsg\<lparr>addr := b\<rparr>) s1 =
                (case xfer_data e pmsg s1 of (x, m, s2) \<Rightarrow> (x, m\<lparr>addr := b\<rparr>, s2))" for b s1
    by (rule xfer_data_addr)
  show ?thesis
    unfolding xfer_msg_def Let_def xfer_start_addr data
    by (simp add: I2C_DEVADDR_MASK_def low7_cfg split: prod.splits)
qed

lemma master_xfer_addr:
  assumes "xfer_loop e pre s0 = (None, pre1, s)"
  shows "fst (mtk_i2c_master_xfer e i2c (pre @ pmsg\<lparr>addr := a\<rparr> # post) s0)
           = fst (mtk_i2c_master_xfer e i2c (pre @ pmsg\<lparr>addr := a AND 0x7F\<rparr> # post) s0)
       \<and> snd (snd (mtk_i2c_master_xfer e i2c (pre @ pmsg\<lparr>addr := a\<rparr> # post) s0))
           = snd (snd (mtk_i2c_master_xfer e i2c (pre @ pmsg\<lparr>addr := a AND 0x7F\<rparr> # post) s0))
       \<and> map buf (fst (snd (mtk_i2c_master_xfer e i2c (pre @ pmsg\<lparr>addr := a\<rparr> # post) s0)))
           = map buf (fst (snd (mtk_i2c_master_xfer e i2c
                                  (pre @ pmsg\<lparr>addr := a AND 0x7F\<rparr> # post) s0)))"
proof (cases "xfer_msg e (pmsg\<lparr>addr := a AND 0x7F\<rparr>) s")
  case (fields x m s1)
  then have full: "xfer_msg e (pmsg\<lparr>addr := a\<rparr>) s = (x, m\<lparr>addr := a\<rparr>, s1)"
    by (simp add: xfer_msg_addr [where a = a])
  show ?thesis
    by (simp add: master_xfer_at [OF assms] fields full
             split: prod.splits option.splits exit.splits)
qed

text \<open>
  Claim C10 as stated fails: a message with the 10-bit flag clear and an address
  above 0x7F is rejected when its length is 0. The address-config register has
  been written by then, but no address byte is put on the bus.
\<close>

theorem address_counterexample:
  "addr wide_empty_msg > 0x7F
   \<and> flags wide_empty_msg AND I2C_M_TEN = 0
   \<and> fst (mtk_i2c_master_xfer idle_env i2c0 [wide_empty_msg] hw0) = - EINVAL
   \<and> writes_log (snd (snd (mtk_i2c_master_xfer idle_env i2c0 [wide_empty_msg] hw0)))
       = [Write REG_SM0CFG0 0x50]"
  by (simp add: mtk_i2c_master_xfer_def xfer_msg_def Let_def wait_idle_idle_env
        wide_empty_msg_def I2C_M_TEN_def I2C_DEVADDR_MASK_def hw0_def)

text \<open>
  Claim C10, amended. For every message with the 10-bit flag clear and a buffer
  length other than 0, whatever its address, once the idle wait has succeeded:
  the first four register writes of the message are the low 7 bits of the
  address into the address-config register, the start operation, the low 8 bits
  of \<open>(addr << 1) | direction\<close> into the data register, and the write
  operation that puts this byte on the bus. The message is not rejected: a
  plain read or write that ends the request makes the entry point return the
  full number of messages, and for every message the return value and the
  register traffic are those of the same request with the address truncated to
  its low seven bits.
\<close>

theorem address_truncated:
  assumes "xfer_loop e pre s0 = (None, pre1, s)"
    and "fst (mtk_i2c_wait_idle e s) = 0"
    and "flags pmsg AND I2C_M_TEN = 0"
    and "len pmsg \<noteq> 0"
  shows "take 4 (drop (length (writes_log s))
           (writes_log (snd (snd (mtk_i2c_master_xfer e i2c (pre @ pmsg # post) s0)))))
           = [Write REG_SM0CFG0 (ucast (addr pmsg) AND 0x7F),
              Write REG_SM0CTL1 (push_bit 16 0xFF OR push_bit 8 0
                                 OR push_bit 4 SM0_MODE_START OR 1),
              Write REG_SM0D0 ((push_bit 1 (ucast (addr pmsg))
                                OR (if flags pmsg AND I2C_M_RD \<noteq> 0 then 1 else 0)) AND 0xFF),
              Write REG_SM0CTL1 (push_bit 16 0xFF OR push_bit 8 0
                                 OR push_bit 4 SM0_MODE_WRITE OR 1)]
       \<and> (flags pmsg AND I2C_M_RECV_LEN = 0 \<longrightarrow>
            fst (mtk_i2c_master_xfer e i2c (pre @ [pmsg]) s0) = int (length pre) + 1)
       \<and> fst (mtk_i2c_master_xfer e i2c (pre @ pmsg # post) s0)
           = fst (mtk_i2c_master_xfer e i2c (pre @ pmsg\<lparr>addr := addr pmsg AND 0x7F\<rparr> # post) s0)
       \<and> snd (snd (mtk_i2c_master_xfer e i2c (pre @ pmsg # post) s0))
           = snd (snd (mtk_i2c_master_xfer e i2c
                         (pre @ pmsg\<lparr>addr := addr pmsg AND 0x7F\<rparr> # post) s0))"
proof -
  let ?s2 = "mtk_i2c_w32 (ucast (addr pmsg) AND I2C_DEVADDR_MASK) REG_SM0CFG0
               (snd (mtk_i2c_wait_idle e s))"
  let ?ws = "[Write REG_SM0CFG0 (ucast (addr pmsg) AND 0x7F),
              Write REG_SM0CTL1 (push_bit 16 0xFF OR push_bit 8 0
                                 OR push_bit 4 SM0_MODE_START OR 1),
              Write REG_SM0D0 ((push_bit 1 (ucast (addr pmsg))
                                OR (if flags pmsg AND I2C_M_RD \<noteq> 0 then 1 else 0)) AND 0xFF),
              Write REG_SM0CTL1 (push_bit 16 0xFF OR push_bit 8 0
                                 OR push_bit 4 SM0_MODE_WRITE OR 1)]"
  have body: "xfer_msg e pmsg s = xfer_data e pmsg (xfer_start e pmsg ?s2)"
    using assms(2-4) by (simp add: xfer_msg_def Let_def)
  have start: "writes_log (xfer_start e pmsg ?s2) = writes_log s @ ?ws"
    by (simp add: I2C_DEVADDR_MASK_def)
  have "prefix (writes_log (xfer_start e pmsg ?s2)) (writes_log (snd (snd (xfer_msg e pmsg s))))"
    unfolding body by (rule prefix_xfer_data)
  then have pf: "prefix (writes_log s @ ?ws)
               (writes_log (snd (snd (mtk_i2c_master_xfer e i2c (pre @ pmsg # post) s0))))"
    unfolding start using prefix_master_xfer_at [OF assms(1)] by (rule prefix_order.trans)
  have first: "take 4 (drop (length (writes_log s))
           (writes_log (snd (snd (mtk_i2c_master_xfer e i2c (pre @ pmsg # post) s0))))) = ?ws"
    by (rule take_drop_prefix [OF pf]) simp
  have "fst (xfer_msg e pmsg s) = None" if "flags pmsg AND I2C_M_RECV_LEN = 0"
    unfolding body using that by (simp add: xfer_data_def Let_def)
  then have second: "fst (mtk_i2c_master_xfer e i2c (pre @ [pmsg]) s0) = int (length pre) + 1"
    if "flags pmsg AND I2C_M_RECV_LEN = 0"
    using that by (cases "xfer_msg e pmsg s") (simp add: master_xfer_at [OF assms(1)])
  show ?thesis
  proof (intro conjI impI)
    show "take 4 (drop (length (writes_log s))
           (writes_log (snd (snd (mtk_i2c_master_xfer e i2c (pre @ pmsg # post) s0))))) = ?ws"
      by (rule first)
    show "fst (mtk_i2c_master_xfer e i2c (pre @ [pmsg]) s0) = int (length pre) + 1"
      if "flags pmsg AND I2C_M_RECV_LEN = 0"
      using that by (rule second)
    show "fst (mtk_i2c_master_xfer e i2c (pre @ pmsg # post) s0)
           = fst (mtk_i2c_master_xfer e i2c (pre @ pmsg\<lparr>addr := addr pmsg AND 0x7F\<rparr> # post) s0)"
      using master_xfer_addr [OF assms(1), of i2c "addr pmsg" pmsg post] by simp
    show "snd (snd (mtk_i2c_master_xfer e i2c (pre @ pmsg # post) s0))
           = snd (snd (mtk_i2c_master_xfer e i2c
                         (pre @ pmsg\<lparr>addr := addr pmsg AND 0x7F\<rparr> # post) s0))"
      using master_xfer_addr [OF assms(1), of i2c "addr pmsg" pmsg post] by simp
  qed
qed

theorem address_truncated_witness:
  "xfer_loop idle_env [] hw0 = (None, [], hw0)
   \<and> fst (mtk_i2c_wait_idle idle_env hw0) = 0
   \<and> flags wide_msg AND I2C_M_TEN = 0
   \<and> len wide_msg \<noteq> 0
   \<and> addr wide_msg > 0x7F
   \<and> take 4 (writes_log (snd (snd (mtk_i2c_master_xfer idle_env i2c0 [wide_msg] hw0))))
       = [Write REG_SM0CFG0 0x50, Write REG_SM0CTL1 0xFF0011, Write REG_SM0D0 0xA1,
          Write REG_SM0CTL1 0xFF0021]
   \<and> fst (mtk_i2c_master_xfer idle_env i2c0 [wide_msg] hw0) = 1"
proof -
  have a: "xfer_loop idle_env [] hw0 = (None, [], hw0)" by simp
  have b: "fst (mtk_i2c_wait_idle idle_env hw0) = 0" by (simp add: wait_idle_idle_env)
  have c: "flags wide_msg AND I2C_M_TEN = 0"
    by (simp add: wide_msg_def I2C_M_TEN_def I2C_M_RD_def)
  have d: "len wide_msg \<noteq> 0" by (simp add: wide_msg_def)
  have f: "flags wide_msg AND I2C_M_RECV_LEN = 0"
    by (simp add: wide_msg_def I2C_M_RECV_LEN_def I2C_M_RD_def)
  note th = address_truncated [OF a b c d, of i2c0 "[]"]
  from th [THEN conjunct1] th [THEN conjunct2, THEN conjunct1] a b c d f
  show ?thesis
    by (simp add: wide_msg_def SM0_MODE_START_def SM0_MODE_WRITE_def I2C_M_RD_def)
qed

subsection \<open>Block read with an invalid length byte\<close>

text \<open>
  Claim C6. For every block-read message (flag \<open>I2C_M_RECV_LEN\<close>) that reaches
  its data phase and whose first received byte is 0 or at least
  \<open>I2C_SMBUS_BLOCK_MAX\<close>: the entry point returns \<open>-EINVAL\<close>, the error code
  the driver uses for a protocol violation; the register writes of the message
  are the address, the start, the address byte and its write operation, the one
  read operation for the length byte and exactly one stop operation. No read
  operation follows the length byte, and only byte 0 of the buffer is stored.
\<close>

theorem block_read_bogus_length:
  assumes "xfer_loop e pre s0 = (None, pre1, s)"
    and "fst (mtk_i2c_wait_idle e s) = 0"
    and "flags pmsg AND I2C_M_TEN = 0"
    and "len pmsg \<noteq> 0"
    and "flags pmsg AND I2C_M_RECV_LEN \<noteq> 0"
    and "recv_len_byte e pmsg s = 0 \<or> I2C_SMBUS_BLOCK_MAX \<le> recv_len_byte e pmsg s"
  shows "fst (mtk_i2c_master_xfer e i2c (pre @ pmsg # post) s0) = - EINVAL
       \<and> fst (snd (mtk_i2c_master_xfer e i2c (pre @ pmsg # post) s0))
           = pre1 @ pmsg\<lparr>buf := (buf pmsg)(0 := recv_len_byte e pmsg s)\<rparr> # post
       \<and> writes_log (snd (snd (mtk_i2c_master_xfer e i2c (pre @ pmsg # post) s0)))
           = writes_log s @
               [Write REG_SM0CFG0 (ucast (addr pmsg) AND I2C_DEVADDR_MASK),
                Write REG_SM0CTL1 (push_bit 16 0xFF OR push_bit 8 0
                                   OR push_bit 4 SM0_MODE_START OR 1),
                Write REG_SM0D0 ((push_bit 1 (ucast (addr pmsg))
                                  OR (if flags pmsg AND I2C_M_RD \<noteq> 0 then 1 else 0)) AND 0xFF),
                Write REG_SM0CTL1 (push_bit 16 0xFF OR push_bit 8 0
                                   OR push_bit 4 SM0_MODE_WRITE OR 1),
                Write REG_SM0CTL1 (push_bit 16 0xFF OR push_bit 8 0
                                   OR push_bit 4 SM0_MODE_READ_ACK OR 1),
                Write REG_SM0CTL1 (push_bit 16 0xFF OR push_bit 8 0
                                   OR push_bit 4 SM0_MODE_STOP OR 1)]"
proof -
  let ?s3 = "xfer_start e pmsg
               (mtk_i2c_w32 (ucast (addr pmsg) AND I2C_DEVADDR_MASK) REG_SM0CFG0
                  (snd (mtk_i2c_wait_idle e s)))"
  let ?n = "fst (mtk_i2c_read e 1 (buf pmsg) 0 ?s3) 0"
  have n: "recv_len_byte e pmsg s = ?n"
    by (simp add: recv_len_byte_def)
  have bogus: "\<not> (?n < I2C_SMBUS_BLOCK_MAX \<and> 0 < ?n)"
    using assms(6) unfolding n by (auto simp: word_greater_zero_iff not_less)
  have b: "fst (mtk_i2c_read e 1 (buf pmsg) 0 ?s3) = (buf pmsg)(0 := ?n)"
    by (simp add: read_one)
  have "xfer_msg e pmsg s =
          (Some (Ret (- EINVAL)), pmsg\<lparr>buf := (buf pmsg)(0 := ?n)\<rparr>,
           xfer_stop e (snd (mtk_i2c_read e 1 (buf pmsg) 0 ?s3)))"
    using assms(2-5) bogus b by (simp add: xfer_msg_def xfer_data_def Let_def)
  then show ?thesis
    by (simp add: master_xfer_at [OF assms(1)] n writes_log_read_one)
qed

lemma recv_len_byte_bogus_env: "recv_len_byte bogus_env block_msg hw0 = 200"
  by (simp add: recv_len_byte_def read_one wait_done_bogus_env mtk_i2c_r32_def Let_def)
     (simp add: bogus_env_def)

theorem block_read_bogus_length_witness:
  "xfer_loop bogus_env [] hw0 = (None, [], hw0)
   \<and> fst (mtk_i2c_wait_idle bogus_env hw0) = 0
   \<and> flags block_msg AND I2C_M_TEN = 0
   \<and> len block_msg \<noteq> 0
   \<and> flags block_msg AND I2C_M_RECV_LEN \<noteq> 0
   \<and> recv_len_byte bogus_env block_msg hw0 = 200
   \<and> fst (mtk_i2c_master_xfer bogus_env i2c0 [block_msg] hw0) = - EINVAL
   \<and> writes_log (snd (snd (mtk_i2c_master_xfer bogus_env i2c0 [block_msg] hw0)))
       = [Write REG_SM0CFG0 0x44, Write REG_SM0CTL1 0xFF0011, Write REG_SM0D0 0x89,
          Write REG_SM0CTL1 0xFF0021, Write REG_SM0CTL1 0xFF0051, Write REG_SM0CTL1 0xFF0031]"
proof -
  have a: "xfer_loop bogus_env [] hw0 = (None, [], hw0)" by simp
  have b: "fst (mtk_i2c_wait_idle bogus_env hw0) = 0" by (simp add: wait_idle_bogus_env)
  have c: "flags block_msg AND I2C_M_TEN = 0"
    by (simp add: block_msg_def I2C_M_TEN_def I2C_M_RD_def I2C_M_RECV_LEN_def)
  have d: "len block_msg \<noteq> 0" by (simp add: block_msg_def)
  have f: "flags block_msg AND I2C_M_RECV_LEN \<noteq> 0"
    by (simp add: block_msg_def I2C_M_RD_def I2C_M_RECV_LEN_def)
  have g: "recv_len_byte bogus_env block_msg hw0 = 0
           \<or> I2C_SMBUS_BLOCK_MAX \<le> recv_len_byte bogus_env block_msg hw0"
    by (simp add: recv_len_byte_bogus_env I2C_SMBUS_BLOCK_MAX_def)
  from block_read_bogus_length [OF a b c d f g, of i2c0 "[]"] a b c d f
  show ?thesis
    by (simp add: recv_len_byte_bogus_env)
       (simp add: block_msg_def I2C_DEVADDR_MASK_def SM0_MODE_START_def SM0_MODE_WRITE_def
          SM0_MODE_READ_ACK_def SM0_MODE_STOP_def I2C_M_RD_def I2C_M_RECV_LEN_def)
qed


subsection \<open>The data registers of a write chunk\<close>

text \<open>
  The 8-byte chunk 11 22 .. 88: the window made of the two data registers is
  not the little-endian window.
\<close>

lemma window_hi:
  "(ucast (drop_bit 32 (ucast (lo :: u32) OR push_bit 32 (ucast (hi :: u32)) :: u64)) :: u32) = hi"
  by (rule bit_word_eqI) (auto simp: bit_simps dest: bit_imp_le_length)

lemma write8_window_wrong:
  "(ucast (ucast (pack_verb e (buf write8_msg) 0 8) :: u32)
     OR push_bit 32 (ucast (ucast (drop_bit 32 (pack_verb e (buf write8_msg) 0 8)) :: u32)) :: u64)
   \<noteq> window_le (buf write8_msg) 0 8"
proof
  let ?lo = "ucast (pack_verb e (buf write8_msg) 0 8) :: u32"
  let ?hi = "ucast (drop_bit 32 (pack_verb e (buf write8_msg) 0 8)) :: u32"
  assume "(ucast ?lo OR push_bit 32 (ucast ?hi) :: u64) = window_le (buf write8_msg) 0 8"
  then have "(ucast (drop_bit 32 (ucast ?lo OR push_bit 32 (ucast ?hi) :: u64)) :: u32)
               = ucast (drop_bit 32 (0x8877665544332211 :: u64))"
    by (simp only: window_le_write8)
  then have "?hi = 0x88776655"
    unfolding window_hi by simp
  with pack_verb_hi [of e "buf write8_msg" 0 8] show False by auto
qed

text \<open>
  Claim C2 fails on the code. A write message of the 8 bytes 11 22 33 44 55 66
  77 88 is sent with one write operation for its data, as claimed, but the data
  registers do not hold the chunk: the register \<open>REG_SM0D1\<close>, bits 32 to 63 of
  the window, receives 0 or 0xFFFFFFFF and never 0x88776655. The shift
  \<open>pmsg->buf[...] << (j*8)\<close> is computed in \<open>int\<close>, without the cast to
  \<open>uint64_t\<close> that the read path has.
\<close>

theorem write_window_defect:
  "writes_log (snd (snd (mtk_i2c_master_xfer (idle_env\<lparr>shl_wide := f\<rparr>) i2c [write8_msg] hw0)))
     = [Write REG_SM0CFG0 0x50, Write REG_SM0CTL1 0xFF0011, Write REG_SM0D0 0xA0,
        Write REG_SM0CTL1 0xFF0021,
        Write REG_SM0D0 (ucast (pack_verb (idle_env\<lparr>shl_wide := f\<rparr>) (buf write8_msg) 0 8)),
        Write REG_SM0D1
          (ucast (drop_bit 32 (pack_verb (idle_env\<lparr>shl_wide := f\<rparr>) (buf write8_msg) 0 8))),
        Write REG_SM0CTL1 0xFF0721, Write REG_SM0CTL1 0xFF0031]
   \<and> (ucast (drop_bit 32 (pack_verb (idle_env\<lparr>shl_wide := f\<rparr>) (buf write8_msg) 0 8)) :: u32)
        \<in> {0, 0xFFFFFFFF}
   \<and> (ucast (drop_bit 32 (pack_verb (idle_env\<lparr>shl_wide := f\<rparr>) (buf write8_msg) 0 8)) :: u32)
        \<noteq> 0x88776655
   \<and> (ucast (ucast (pack_verb (idle_env\<lparr>shl_wide := f\<rparr>) (buf write8_msg) 0 8) :: u32)
        OR push_bit 32 (ucast (ucast (drop_bit 32
             (pack_verb (idle_env\<lparr>shl_wide := f\<rparr>) (buf write8_msg) 0 8)) :: u32)) :: u64)
        \<noteq> window_le (buf write8_msg) 0 8"
proof -
  let ?e = "idle_env\<lparr>shl_wide := f\<rparr>"
  have idle: "mtk_i2c_wait_idle ?e hw0 = (0, hw0\<lparr>trace := Read REG_SM0ST 0 # trace hw0\<rparr>)"
    by (rule wait_idle_quiet) (simp add: idle_env_def)
  have log: "writes_log (snd (snd (mtk_i2c_master_xfer ?e i2c [write8_msg] hw0)))
     = [Write REG_SM0CFG0 0x50, Write REG_SM0CTL1 0xFF0011, Write REG_SM0D0 0xA0,
        Write REG_SM0CTL1 0xFF0021,
        Write REG_SM0D0 (ucast (pack_verb ?e (buf write8_msg) 0 8)),
        Write REG_SM0D1 (ucast (drop_bit 32 (pack_verb ?e (buf write8_msg) 0 8))),
        Write REG_SM0CTL1 0xFF0721, Write REG_SM0CTL1 0xFF0031]"
    by (simp add: mtk_i2c_master_xfer_def xfer_msg_def xfer_data_def idle Let_def
          xfer_write_loop_step write8_msg_def I2C_M_TEN_def I2C_M_RD_def I2C_M_RECV_LEN_def
          I2C_DEVADDR_MASK_def SM0_MODE_START_def SM0_MODE_WRITE_def SM0_MODE_STOP_def)
  have hi: "(ucast (drop_bit 32 (pack_verb ?e (buf write8_msg) 0 8)) :: u32) \<in> {0, 0xFFFFFFFF}"
    by (rule pack_verb_hi)
  then have "(ucast (drop_bit 32 (pack_verb ?e (buf write8_msg) 0 8)) :: u32) \<noteq> 0x88776655"
    by auto
  with log hi write8_window_wrong [of ?e] show ?thesis by blast
qed

subsection \<open>Write, then read back\<close>

lemma write8_log:
  "writes_log (xfer_write_loop e write8_msg 8 0 hw0) =
     [Write REG_SM0D0 (ucast (pack_verb e (buf write8_msg) 0 8)),
      Write REG_SM0D1 (ucast (drop_bit 32 (pack_verb e (buf write8_msg) 0 8))),
      Write REG_SM0CTL1 0xFF0721]"
  by (simp add: xfer_write_loop_step Let_def write8_msg_def SM0_MODE_WRITE_def)

lemma write8_windows:
  "sent_windows (writes_log (xfer_write_loop e write8_msg 8 0 hw0)) =
     [(ucast (pack_verb e (buf write8_msg) 0 8),
       ucast (drop_bit 32 (pack_verb e (buf write8_msg) 0 8)))]"
  by (simp add: write8_log sent_windows_def SM0_MODE_WRITE_def)

lemma echo_read8_byte4:
  "fst (mtk_i2c_read (echo_env [(lo, hi)]) 8 b 0 hw0) 4 = ucast hi"
proof -
  have "fst (mtk_i2c_read (echo_env [(lo, hi)]) 8 b 0 hw0) 4
          = ucast (drop_bit 32 (ucast lo OR push_bit 32 (ucast hi) :: u64))"
    by (simp add: mtk_i2c_read_def mtk_i2c_read_loop_step Let_def read_chunk_store0
          wait_done_echo_env mtk_i2c_r32_def mtk_i2c_w32_def hw0_def)
       (simp add: echo_env_def SM0_MODE_READ_ACK_def)
  also have "\<dots> = ucast hi"
    by (rule bit_word_eqI) (auto simp: bit_simps dest: bit_imp_le_length)
  finally show ?thesis .
qed

text \<open>
  Claim C3 fails on the code, by the defect of C2. The 8 bytes 11 22 .. 88 go
  through the write loop; a device echoes what the write operation transmitted;
  \<open>mtk_i2c_read\<close> reads 8 bytes back. Byte 4 comes back as 00 or FF, not as
  55: the result is not the buffer that was written.
\<close>

theorem round_trip_defect:
  "fst (mtk_i2c_read
          (echo_env (sent_windows (writes_log (xfer_write_loop e write8_msg 8 0 hw0))))
          8 (buf_of []) 0 hw0) 4 \<in> {0x00, 0xFF}
   \<and> buf write8_msg 4 = 0x55
   \<and> map (fst (mtk_i2c_read
          (echo_env (sent_windows (writes_log (xfer_write_loop e write8_msg 8 0 hw0))))
          8 (buf_of []) 0 hw0)) [0..<8]
       \<noteq> map (buf write8_msg) [0..<8]"
proof -
  let ?r = "fst (mtk_i2c_read
          (echo_env (sent_windows (writes_log (xfer_write_loop e write8_msg 8 0 hw0))))
          8 (buf_of []) 0 hw0)"
  have "(ucast (ucast (drop_bit 32 (pack_verb e (buf write8_msg) 0 8)) :: u32) :: u8) \<in> {0x00, 0xFF}"
    using pack_verb_hi [of e "buf write8_msg" 0 8] by auto
  then have r4: "?r 4 \<in> {0x00, 0xFF}"
    by (simp add: write8_windows echo_read8_byte4)
  have b4: "buf write8_msg 4 = 0x55"
    by (simp add: write8_msg_def buf_of_def)
  have "map ?r [0..<8] \<noteq> map (buf write8_msg) [0..<8]"
  proof
    assume "map ?r [0..<8] = map (buf write8_msg) [0..<8]"
    then have "map ?r [0..<8] ! 4 = map (buf write8_msg) [0..<8] ! 4" by simp
    then have "?r 4 = buf write8_msg 4" by (simp del: upt_Suc)
    with r4 b4 show False by auto
  qed
  with r4 b4 show ?thesis by blast
qed

subsection \<open>The byte count of write operations\<close>

text \<open>
  Claim C4 fails on the code in its second half, by the defect of C2. A write
  message of the 12 bytes 01 .. 0C is sent in two chunks of 8 and 4 bytes. Both
  write operations carry the byte count field 3, that is \<open>(len - 1) & 7\<close> of
  the whole message, as the claim says. The data registers of the second chunk
  hold its four bytes, but those of the first chunk do not hold its eight:
  \<open>REG_SM0D1\<close> receives 0 or 0xFFFFFFFF, never 0x08070605.
\<close>

theorem byte_count_quirk_defect:
  "writes_log (snd (snd (mtk_i2c_master_xfer (idle_env\<lparr>shl_wide := f\<rparr>) i2c [write12_msg] hw0)))
     = [Write REG_SM0CFG0 0x50, Write REG_SM0CTL1 0xFF0011, Write REG_SM0D0 0xA0,
        Write REG_SM0CTL1 0xFF0021,
        Write REG_SM0D0 (ucast (pack_verb (idle_env\<lparr>shl_wide := f\<rparr>) (buf write12_msg) 0 8)),
        Write REG_SM0D1
          (ucast (drop_bit 32 (pack_verb (idle_env\<lparr>shl_wide := f\<rparr>) (buf write12_msg) 0 8))),
        Write REG_SM0CTL1 0xFF0321,
        Write REG_SM0D0 0x0C0B0A09, Write REG_SM0D1 0,
        Write REG_SM0CTL1 0xFF0321,
        Write REG_SM0CTL1 0xFF0031]
   \<and> (ucast (drop_bit 32 (pack_verb (idle_env\<lparr>shl_wide := f\<rparr>) (buf write12_msg) 0 8)) :: u32)
        \<in> {0, 0xFFFFFFFF}
   \<and> (ucast (drop_bit 32 (pack_verb (idle_env\<lparr>shl_wide := f\<rparr>) (buf write12_msg) 0 8)) :: u32)
        \<noteq> 0x08070605"
proof -
  let ?e = "idle_env\<lparr>shl_wide := f\<rparr>"
  have idle: "mtk_i2c_wait_idle ?e hw0 = (0, hw0\<lparr>trace := Read REG_SM0ST 0 # trace hw0\<rparr>)"
    by (rule wait_idle_quiet) (simp add: idle_env_def)
  have len12: "len write12_msg = 12" "flags write12_msg = 0" "addr write12_msg = 0x50"
    by (simp_all add: write12_msg_def)
  have log: "writes_log (snd (snd (mtk_i2c_master_xfer ?e i2c [write12_msg] hw0)))
     = [Write REG_SM0CFG0 0x50, Write REG_SM0CTL1 0xFF0011, Write REG_SM0D0 0xA0,
        Write REG_SM0CTL1 0xFF0021,
        Write REG_SM0D0 (ucast (pack_verb ?e (buf write12_msg) 0 8)),
        Write REG_SM0D1 (ucast (drop_bit 32 (pack_verb ?e (buf write12_msg) 0 8))),
        Write REG_SM0CTL1 0xFF0321,
        Write REG_SM0D0 0x0C0B0A09, Write REG_SM0D1 0,
        Write REG_SM0CTL1 0xFF0321,
        Write REG_SM0CTL1 0xFF0031]"
    by (simp add: mtk_i2c_master_xfer_def xfer_msg_def xfer_data_def idle Let_def
          xfer_write_loop_step len12 pack_second_chunk I2C_M_TEN_def I2C_M_RD_def
          I2C_M_RECV_LEN_def I2C_DEVADDR_MASK_def SM0_MODE_START_def SM0_MODE_WRITE_def
          SM0_MODE_STOP_def)
  have hi: "(ucast (drop_bit 32 (pack_verb ?e (buf write12_msg) 0 8)) :: u32) \<in> {0, 0xFFFFFFFF}"
    by (rule pack_verb_hi)
  then have "(ucast (drop_bit 32 (pack_verb ?e (buf write12_msg) 0 8)) :: u32) \<noteq> 0x08070605"
    by auto
  with log hi show ?thesis by blast
qed

subsection \<open>Timeouts\<close>

text \<open>
  A timeout of the idle wait, the one wait whose result the transfer checks:
  the entry point returns \<open>-EAGAIN\<close>, the messages are left as they are, and
  the only register writes are those of one reset.
\<close>

lemma idle_timeout_resets:
  assumes "xfer_loop e pre s0 = (None, pre1, s)"
    and "fst (mtk_i2c_wait_idle e s) \<noteq> 0"
  shows "mtk_i2c_master_xfer e i2c (pre @ pmsg # post) s0 =
           (- EAGAIN, pre1 @ pmsg # post,
            mtk_i2c_reset i2c (mtk_i2c_dump_reg e (snd (mtk_i2c_wait_idle e s))))"
    and "writes_log (snd (snd (mtk_i2c_master_xfer e i2c (pre @ pmsg # post) s0))) =
           writes_log s @
             [DeviceReset,
              Write REG_SM0CTL0 (ODRAIN_HIGH_SM0 OR VSYNC_PULSE
                 OR push_bit CLK_DIV_SHIFT (clk_div i2c) OR WAIT_HIGH OR SM0_EN),
              Write REG_SM0CFG2 0]"
  using assms(2) wait_idle_result [of e s]
  by (auto simp: master_xfer_at [OF assms(1)] xfer_msg_def Let_def)

text \<open>
  Claim C1 fails on the code for the operation-done wait. On a controller whose
  trigger bit never clears, every \<open>mtk_i2c_wait_done\<close> times out with
  \<open>-EAGAIN\<close>, but its result is dropped at every call: a one-byte write
  message runs through all its operations, the entry point returns 1, the full
  number of messages, and no reset takes place. Only the idle wait is checked.
\<close>

theorem op_done_timeout_ignored:
  "fst (mtk_i2c_wait_done hung_env s) = - EAGAIN
   \<and> fst (mtk_i2c_master_xfer hung_env i2c [write1_msg] hw0) = 1
   \<and> writes_log (snd (snd (mtk_i2c_master_xfer hung_env i2c [write1_msg] hw0)))
       = [Write REG_SM0CFG0 0x50, Write REG_SM0CTL1 0xFF0011, Write REG_SM0D0 0xA0,
          Write REG_SM0CTL1 0xFF0021, Write REG_SM0D0 0xAB, Write REG_SM0D1 0,
          Write REG_SM0CTL1 0xFF0021, Write REG_SM0CTL1 0xFF0031]
   \<and> DeviceReset \<notin> set (writes_log (snd (snd (mtk_i2c_master_xfer hung_env i2c [write1_msg] hw0))))"
proof -
  have m: "len write1_msg = 1" "flags write1_msg = 0" "addr write1_msg = 0x50"
    by (simp_all add: write1_msg_def)
  have ret: "fst (mtk_i2c_master_xfer hung_env i2c [write1_msg] hw0) = 1"
    by (simp add: mtk_i2c_master_xfer_def xfer_msg_def xfer_data_def wait_idle_hung_env Let_def
          m I2C_M_TEN_def I2C_M_RD_def I2C_M_RECV_LEN_def)
  have log: "writes_log (snd (snd (mtk_i2c_master_xfer hung_env i2c [write1_msg] hw0)))
       = [Write REG_SM0CFG0 0x50, Write REG_SM0CTL1 0xFF0011, Write REG_SM0D0 0xA0,
          Write REG_SM0CTL1 0xFF0021, Write REG_SM0D0 0xAB, Write REG_SM0D1 0,
          Write REG_SM0CTL1 0xFF0021, Write REG_SM0CTL1 0xFF0031]"
    by (simp add: mtk_i2c_master_xfer_def xfer_msg_def xfer_data_def wait_idle_hung_env Let_def
          xfer_write_loop_step m pack_one_byte I2C_M_TEN_def I2C_M_RD_def
          I2C_M_RECV_LEN_def I2C_DEVADDR_MASK_def SM0_MODE_START_def SM0_MODE_WRITE_def
          SM0_MODE_STOP_def)
  show ?thesis
    unfolding log using ret wait_done_hung_env by simp
qed

end
